theory Spec2Isabelle
  imports Complex_Main "HOL-Library.Word" "HOL-Library.Char_ord" "HOL-Library.List_Lexorder"
    "HOL-Library.Monad_Syntax"
begin

section \<open>The sound system of SoundSystem.cpp\<close>

text \<open>
  SoundSystem.cpp keeps two globals: the miniaudio engine \<open>g_engine\<close> and the registry
  \<open>g_loadedSounds\<close>, a \<open>std::map<std::string, ma_sound*>\<close>. Every exported function
  looks an identifier up in the registry and calls miniaudio on the \<open>ma_sound\<close> object the
  entry points to. The embedding passes the state explicitly:
  \<^item> the registry is an association list in key order (the order a \<open>std::map\<close> iterates in);
  \<^item> the \<open>ma_sound\<close> objects live in a store from addresses to objects; \<open>new\<close> and
    \<open>delete\<close> add and remove them;
  \<^item> everything the functions do to the outside (a call into miniaudio, an allocation, a
    line on \<open>std::cout\<close> or \<open>std::cerr\<close>) is appended to a chronological event list;
  \<^item> a \<open>const char*\<close> argument is a \<open>string option\<close>, \<open>None\<close> being the null pointer;
  \<^item> a \<open>float\<close> is a NaN, an infinity or a finite value, with the comparisons of
    IEEE 754: the functions only compare floats and pass them on, they compute nothing
    with them.
\<close>

subsection \<open>Values\<close>

type_synonym ma_result = int

definition MA_SUCCESS :: ma_result where
  "MA_SUCCESS = 0"

text \<open>A \<open>ma_sound*\<close>: an address, \<open>nullptr\<close> being address 0.\<close>

type_synonym ptr = nat

definition nullptr :: ptr where
  "nullptr = 0"

text \<open>
  The prefix of a diagnostic line: \<open>SoundSystem ERROR:\<close> and \<open>SoundSystem WARNING:\<close> go
  to \<open>std::cerr\<close> (and to a message box on Windows), \<open>SoundSystem:\<close> goes to
  \<open>std::cout\<close>.
\<close>

datatype severity = ERROR | WARNING | INFO

text \<open>
  A \<open>float\<close>. A finite value is the real number it denotes (the two zeros are one
  value; the reals that binary32 cannot represent are never passed by a caller and
  harm nothing). \<open>a < b\<close> and \<open>a <= b\<close> are the comparisons of IEEE 754: with a NaN
  on either side both are false.
\<close>

datatype cfloat = NaN | NegInf | Finite real | PosInf

fun float_lt :: "cfloat \<Rightarrow> cfloat \<Rightarrow> bool" where
  "float_lt NaN b = False"
| "float_lt a NaN = False"
| "float_lt PosInf b = False"
| "float_lt a NegInf = False"
| "float_lt NegInf b = True"
| "float_lt a PosInf = True"
| "float_lt (Finite a) (Finite b) = (a < b)"

definition float_le :: "cfloat \<Rightarrow> cfloat \<Rightarrow> bool" where
  "float_le a b \<longleftrightarrow> float_lt a b \<or> (a = b \<and> a \<noteq> NaN)"

text \<open>A value streamed into a diagnostic line with \<open><<\<close>.\<close>

datatype arg = Str string | Res ma_result | Num cfloat | Flag bool

text \<open>
  What a function does to the outside. A \<open>Report\<close> carries the severity, the fixed wording
  of the line and the values streamed into it, in order.
\<close>

datatype event =
    New ptr
  | Delete ptr
  | Call_ma_engine_init
  | Call_ma_engine_uninit
  | Call_ma_sound_init_from_file string ptr
  | Call_ma_sound_uninit ptr
  | Call_ma_sound_stop ptr
  | Call_ma_sound_start ptr
  | Call_ma_sound_seek_to_pcm_frame ptr "64 word"
  | Call_ma_sound_set_looping ptr bool
  | Call_ma_sound_set_volume ptr cfloat
  | Call_ma_sound_set_pan ptr cfloat
  | Call_ma_sound_set_pitch ptr cfloat
  | Call_ma_sound_set_position ptr cfloat cfloat cfloat
  | Call_ma_engine_set_volume cfloat
  | Call_ma_engine_listener_set_position nat cfloat cfloat cfloat
  | Call_ma_engine_listener_set_direction nat cfloat cfloat cfloat
  | Report severity string "arg list"

fun is_report :: "event \<Rightarrow> bool" where
  "is_report (Report _ _ _) = True"
| "is_report _ = False"

text \<open>The calls and allocations among the events, without the diagnostic lines.\<close>

definition actions :: "event list \<Rightarrow> event list" where
  "actions es = filter (\<lambda>e. \<not> is_report e) es"

subsection \<open>The audio engine\<close>

text \<open>
  The miniaudio library is not among the sources: SoundSystem.cpp only includes
  miniaudio.h. The engine is therefore a parameter of the model: a record of the
  miniaudio functions SoundSystem.cpp calls, as functions over the state \<open>'s\<close> of one
  \<open>ma_sound\<close> object, each returning the result code (where miniaudio returns one)
  and the object's new state. Nothing is assumed of them here; a property that needs
  something of the engine says so in its hypotheses.
  \<open>ma_sound_get_cursor_in_pcm_frames\<close> is miniaudio's reading of the playback position;
  SoundSystem.cpp never calls it, the properties about positions are stated with it.
\<close>

record 's miniaudio =
  ma_engine_init :: ma_result
  ma_sound_init_from_file :: "string \<Rightarrow> ma_result \<times> 's"
  ma_sound_is_playing :: "'s \<Rightarrow> bool"
  ma_sound_stop :: "'s \<Rightarrow> ma_result \<times> 's"
  ma_sound_start :: "'s \<Rightarrow> ma_result \<times> 's"
  ma_sound_seek_to_pcm_frame :: "'s \<Rightarrow> 64 word \<Rightarrow> ma_result \<times> 's"
  ma_sound_set_looping :: "'s \<Rightarrow> bool \<Rightarrow> 's"
  ma_sound_set_volume :: "'s \<Rightarrow> cfloat \<Rightarrow> 's"
  ma_sound_set_pan :: "'s \<Rightarrow> cfloat \<Rightarrow> 's"
  ma_sound_set_pitch :: "'s \<Rightarrow> cfloat \<Rightarrow> 's"
  ma_sound_set_position :: "'s \<Rightarrow> cfloat \<Rightarrow> cfloat \<Rightarrow> cfloat \<Rightarrow> 's"
  ma_sound_get_cursor_in_pcm_frames :: "'s \<Rightarrow> 64 word"

subsection \<open>The state\<close>

record 's sound_system =
  g_loadedSounds :: "(string \<times> ptr) list"
  heap :: "ptr \<rightharpoonup> 's"
  events :: "event list"

definition emit :: "event \<Rightarrow> 's sound_system \<Rightarrow> 's sound_system" where
  "emit e st = st\<lparr>events := events st @ [e]\<rparr>"

definition report :: "severity \<Rightarrow> string \<Rightarrow> arg list \<Rightarrow> 's sound_system \<Rightarrow> 's sound_system" where
  "report sev txt args st = emit (Report sev txt args) st"

text \<open>
  The object a pointer designates: none for the null pointer and for an address that
  holds no live object. A function that dereferences such a pointer has no defined
  behaviour in C++; in the model it returns \<open>None\<close>.
\<close>

definition sound_at :: "'s sound_system \<Rightarrow> ptr \<Rightarrow> 's option" where
  "sound_at st p = (if p = nullptr then None else heap st p)"

definition store :: "ptr \<Rightarrow> 's \<Rightarrow> 's sound_system \<Rightarrow> 's sound_system" where
  "store p s st = st\<lparr>heap := (heap st)(p \<mapsto> s)\<rparr>"

text \<open>\<open>delete p\<close>: the object is gone.\<close>

definition delete_sound :: "ptr \<Rightarrow> 's sound_system \<Rightarrow> 's sound_system" where
  "delete_sound p st = emit (Delete p) (st\<lparr>heap := (heap st)(p := None)\<rparr>)"

subsection \<open>The registry: \<open>std::map<std::string, ma_sound*>\<close>\<close>

text \<open>\<open>g_loadedSounds.find(k)\<close> and \<open>g_loadedSounds.count(k)\<close>.\<close>

definition map_find :: "(string \<times> ptr) list \<Rightarrow> string \<Rightarrow> ptr option" where
  "map_find m k = map_of m k"

text \<open>\<open>g_loadedSounds[k] = v\<close>: the entry is replaced, or inserted at its place in key order.\<close>

fun map_assign :: "string \<Rightarrow> ptr \<Rightarrow> (string \<times> ptr) list \<Rightarrow> (string \<times> ptr) list" where
  "map_assign k v [] = [(k, v)]"
| "map_assign k v ((k', v') # m) =
     (if k < k' then (k, v) # (k', v') # m
      else if k = k' then (k, v) # m
      else (k', v') # map_assign k v m)"

text \<open>\<open>g_loadedSounds.erase(it)\<close>, for the iterator \<open>find(k)\<close> returned.\<close>

fun map_erase :: "string \<Rightarrow> (string \<times> ptr) list \<Rightarrow> (string \<times> ptr) list" where
  "map_erase k [] = []"
| "map_erase k ((k', v') # m) = (if k = k' then m else (k', v') # map_erase k m)"

subsection \<open>Calls into miniaudio on the object behind a pointer\<close>

text \<open>
  A call that returns a result code: the object is read through the pointer, replaced by
  what the engine makes of it, and the call is recorded.
\<close>

definition with_result ::
  "event \<Rightarrow> ptr \<Rightarrow> ('s \<Rightarrow> ma_result \<times> 's) \<Rightarrow> 's sound_system \<Rightarrow> (ma_result \<times> 's sound_system) option" where
  "with_result e p f st =
     (case sound_at st p of
        None \<Rightarrow> None
      | Some s \<Rightarrow> Some (fst (f s), emit e (store p (snd (f s)) st)))"

text \<open>A call that returns \<open>void\<close>.\<close>

definition without_result ::
  "event \<Rightarrow> ptr \<Rightarrow> ('s \<Rightarrow> 's) \<Rightarrow> 's sound_system \<Rightarrow> 's sound_system option" where
  "without_result e p f st =
     (case sound_at st p of
        None \<Rightarrow> None
      | Some s \<Rightarrow> Some (emit e (store p (f s) st)))"

definition sound_is_playing :: "'s miniaudio \<Rightarrow> ptr \<Rightarrow> 's sound_system \<Rightarrow> bool option" where
  "sound_is_playing ma p st = map_option (ma_sound_is_playing ma) (sound_at st p)"

definition sound_stop ::
  "'s miniaudio \<Rightarrow> ptr \<Rightarrow> 's sound_system \<Rightarrow> (ma_result \<times> 's sound_system) option" where
  "sound_stop ma p = with_result (Call_ma_sound_stop p) p (ma_sound_stop ma)"

definition sound_start ::
  "'s miniaudio \<Rightarrow> ptr \<Rightarrow> 's sound_system \<Rightarrow> (ma_result \<times> 's sound_system) option" where
  "sound_start ma p = with_result (Call_ma_sound_start p) p (ma_sound_start ma)"

definition sound_seek_to_pcm_frame ::
  "'s miniaudio \<Rightarrow> ptr \<Rightarrow> 64 word \<Rightarrow> 's sound_system \<Rightarrow> (ma_result \<times> 's sound_system) option" where
  "sound_seek_to_pcm_frame ma p frameIndex =
     with_result (Call_ma_sound_seek_to_pcm_frame p frameIndex) p
       (\<lambda>s. ma_sound_seek_to_pcm_frame ma s frameIndex)"

definition sound_set_looping ::
  "'s miniaudio \<Rightarrow> ptr \<Rightarrow> bool \<Rightarrow> 's sound_system \<Rightarrow> 's sound_system option" where
  "sound_set_looping ma p loop =
     without_result (Call_ma_sound_set_looping p loop) p (\<lambda>s. ma_sound_set_looping ma s loop)"

definition sound_set_volume ::
  "'s miniaudio \<Rightarrow> ptr \<Rightarrow> cfloat \<Rightarrow> 's sound_system \<Rightarrow> 's sound_system option" where
  "sound_set_volume ma p volume =
     without_result (Call_ma_sound_set_volume p volume) p (\<lambda>s. ma_sound_set_volume ma s volume)"

definition sound_set_pan ::
  "'s miniaudio \<Rightarrow> ptr \<Rightarrow> cfloat \<Rightarrow> 's sound_system \<Rightarrow> 's sound_system option" where
  "sound_set_pan ma p pan =
     without_result (Call_ma_sound_set_pan p pan) p (\<lambda>s. ma_sound_set_pan ma s pan)"

definition sound_set_pitch ::
  "'s miniaudio \<Rightarrow> ptr \<Rightarrow> cfloat \<Rightarrow> 's sound_system \<Rightarrow> 's sound_system option" where
  "sound_set_pitch ma p pitch =
     without_result (Call_ma_sound_set_pitch p pitch) p (\<lambda>s. ma_sound_set_pitch ma s pitch)"

definition sound_set_position ::
  "'s miniaudio \<Rightarrow> ptr \<Rightarrow> cfloat \<Rightarrow> cfloat \<Rightarrow> cfloat \<Rightarrow> 's sound_system \<Rightarrow> 's sound_system option" where
  "sound_set_position ma p x y z =
     without_result (Call_ma_sound_set_position p x y z) p (\<lambda>s. ma_sound_set_position ma s x y z)"

text \<open>
  The playback position of the object behind a pointer, as
  \<open>ma_sound_get_cursor_in_pcm_frames\<close> reads it. No exported function calls it.
\<close>

definition sound_cursor :: "'s miniaudio \<Rightarrow> ptr \<Rightarrow> 's sound_system \<Rightarrow> 64 word option" where
  "sound_cursor ma p st = map_option (ma_sound_get_cursor_in_pcm_frames ma) (sound_at st p)"

text \<open>\<open>ma_sound_uninit\<close> leaves nothing to read: the object is deleted right after.\<close>

definition sound_uninit :: "ptr \<Rightarrow> 's sound_system \<Rightarrow> 's sound_system option" where
  "sound_uninit p = without_result (Call_ma_sound_uninit p) p (\<lambda>s. s)"

subsection \<open>The exported functions\<close>

definition InitializeSoundSystem :: "'s miniaudio \<Rightarrow> 's sound_system \<Rightarrow> bool \<times> 's sound_system" where
  "InitializeSoundSystem ma st =
     (let result = ma_engine_init ma; st1 = emit Call_ma_engine_init st in
      if result \<noteq> MA_SUCCESS
      then (False, report ERROR ''Failed to initialize miniaudio engine. Result:'' [Res result] st1)
      else (True, report INFO ''Initialized successfully.'' [] st1))"

text \<open>
  The loop of \<open>ShutdownSoundSystem\<close> over the entries, in key order: a non-null pointer
  is uninitialised and deleted. No entry is asked whether it is playing, and none is
  stopped.
\<close>

fun shutdown_loop :: "(string \<times> ptr) list \<Rightarrow> 's sound_system \<Rightarrow> 's sound_system option" where
  "shutdown_loop [] st = Some st"
| "shutdown_loop ((soundId, soundPtr) # entries) st =
     (if soundPtr \<noteq> nullptr
      then (case sound_uninit soundPtr st of
              None \<Rightarrow> None
            | Some st1 \<Rightarrow> shutdown_loop entries (delete_sound soundPtr st1))
      else shutdown_loop entries st)"

definition ShutdownSoundSystem :: "'s sound_system \<Rightarrow> 's sound_system option" where
  "ShutdownSoundSystem st = do {
     st1 \<leftarrow> shutdown_loop (g_loadedSounds st) st;
     Some (report INFO ''Shut down successfully.'' []
            (emit Call_ma_engine_uninit (st1\<lparr>g_loadedSounds := []\<rparr>)))
   }"

text \<open>
  \<open>LoadSound\<close>. \<open>pSound\<close> is what \<open>new (std::nothrow) ma_sound()\<close> returns in this
  call: \<open>nullptr\<close> when the allocation fails, an address that holds no live object
  otherwise.
\<close>

definition LoadSound ::
  "'s miniaudio \<Rightarrow> ptr \<Rightarrow> string option \<Rightarrow> string option \<Rightarrow> 's sound_system \<Rightarrow> bool \<times> 's sound_system" where
  "LoadSound ma pSound filePath soundId st =
     (case (filePath, soundId) of
        (Some path, Some s_soundId) \<Rightarrow>
          (if map_find (g_loadedSounds st) s_soundId \<noteq> None
           then (True, report WARNING ''Sound ID already loaded. Ignoring.'' [Str s_soundId] st)
           else
             (let st1 = emit (New pSound) st in
              if pSound = nullptr
              then (False, report ERROR ''Failed to allocate memory for new sound.'' [] st1)
              else
                (let (result, s) = ma_sound_init_from_file ma path;
                     st2 = emit (Call_ma_sound_init_from_file path pSound) (store pSound s st1)
                 in if result \<noteq> MA_SUCCESS
                    then (False, delete_sound pSound
                            (report ERROR ''Failed to load sound. Result:'' [Str path, Res result] st2))
                    else (True, report INFO ''Loaded sound as ID'' [Str path, Str s_soundId]
                            (st2\<lparr>g_loadedSounds := map_assign s_soundId pSound (g_loadedSounds st2)\<rparr>)))))
      | _ \<Rightarrow> (False, report ERROR ''LoadSound received null filePath or soundId.'' [] st))"

definition UnloadSound :: "'s miniaudio \<Rightarrow> string option \<Rightarrow> 's sound_system \<Rightarrow> 's sound_system option" where
  "UnloadSound ma soundId st =
     (case soundId of
        None \<Rightarrow> Some (report ERROR ''UnloadSound received null soundId.'' [] st)
      | Some s_soundId \<Rightarrow>
          (case map_find (g_loadedSounds st) s_soundId of
             Some pSound \<Rightarrow> do {
               is_playing \<leftarrow> sound_is_playing ma pSound st;
               st1 \<leftarrow> (if is_playing then map_option snd (sound_stop ma pSound st) else Some st);
               st2 \<leftarrow> sound_uninit pSound st1;
               Some (report INFO ''Unloaded sound with ID'' [Str s_soundId]
                      ((delete_sound pSound st2)
                         \<lparr>g_loadedSounds := map_erase s_soundId (g_loadedSounds st2)\<rparr>))
             }
           | None \<Rightarrow>
               Some (report WARNING ''Attempted to unload non-existent sound ID'' [Str s_soundId] st)))"

definition SndPlaySound ::
  "'s miniaudio \<Rightarrow> string option \<Rightarrow> bool \<Rightarrow> 's sound_system \<Rightarrow> 's sound_system option" where
  "SndPlaySound ma soundId loop st =
     (case soundId of
        None \<Rightarrow> Some (report ERROR ''SndPlaySound received null soundId.'' [] st)
      | Some s_soundId \<Rightarrow>
          (case map_find (g_loadedSounds st) s_soundId of
             Some pSound \<Rightarrow> do {
               is_playing \<leftarrow> sound_is_playing ma pSound st;
               st1 \<leftarrow> (if is_playing
                       then do {
                         (_, st') \<leftarrow> sound_stop ma pSound st;
                         map_option snd (sound_seek_to_pcm_frame ma pSound 0 st')
                       }
                       else Some st);
               st2 \<leftarrow> sound_set_looping ma pSound loop st1;
               (result, st3) \<leftarrow> sound_start ma pSound st2;
               Some (if result \<noteq> MA_SUCCESS
                     then report ERROR ''Failed to play sound with ID. Result:''
                            [Str s_soundId, Res result] st3
                     else report INFO ''Playing sound ID (Looping)'' [Str s_soundId, Flag loop] st3)
             }
           | None \<Rightarrow>
               Some (report WARNING ''Attempted to play non-existent sound ID'' [Str s_soundId] st)))"

definition StopSound :: "'s miniaudio \<Rightarrow> string option \<Rightarrow> 's sound_system \<Rightarrow> 's sound_system option" where
  "StopSound ma soundId st =
     (case soundId of
        None \<Rightarrow> Some (report ERROR ''StopSound received null soundId.'' [] st)
      | Some s_soundId \<Rightarrow>
          (case map_find (g_loadedSounds st) s_soundId of
             Some pSound \<Rightarrow> do {
               is_playing \<leftarrow> sound_is_playing ma pSound st;
               if is_playing
               then do {
                 (result, st1) \<leftarrow> sound_stop ma pSound st;
                 if result \<noteq> MA_SUCCESS
                 then Some (report ERROR ''Failed to stop sound with ID. Result:''
                              [Str s_soundId, Res result] st1)
                 else do {
                   (_, st2) \<leftarrow> sound_seek_to_pcm_frame ma pSound 0 st1;
                   Some (report INFO ''Stopped sound ID'' [Str s_soundId] st2)
                 }
               }
               else Some (report INFO ''Sound ID is not playing. No action needed.'' [Str s_soundId] st)
             }
           | None \<Rightarrow>
               Some (report WARNING ''Attempted to stop non-existent sound ID'' [Str s_soundId] st)))"

definition PauseSound :: "'s miniaudio \<Rightarrow> string option \<Rightarrow> 's sound_system \<Rightarrow> 's sound_system option" where
  "PauseSound ma soundId st =
     (case soundId of
        None \<Rightarrow> Some (report ERROR ''PauseSound received null soundId.'' [] st)
      | Some s_soundId \<Rightarrow>
          (case map_find (g_loadedSounds st) s_soundId of
             Some pSound \<Rightarrow> do {
               (result, st1) \<leftarrow> sound_stop ma pSound st;
               Some (if result \<noteq> MA_SUCCESS
                     then report ERROR ''Failed to pause sound with ID. Result:''
                            [Str s_soundId, Res result] st1
                     else report INFO ''Paused sound ID'' [Str s_soundId] st1)
             }
           | None \<Rightarrow>
               Some (report WARNING ''Attempted to pause non-existent sound ID'' [Str s_soundId] st)))"

definition ResumeSound :: "'s miniaudio \<Rightarrow> string option \<Rightarrow> 's sound_system \<Rightarrow> 's sound_system option" where
  "ResumeSound ma soundId st =
     (case soundId of
        None \<Rightarrow> Some (report ERROR ''ResumeSound received null soundId.'' [] st)
      | Some s_soundId \<Rightarrow>
          (case map_find (g_loadedSounds st) s_soundId of
             Some pSound \<Rightarrow> do {
               (result, st1) \<leftarrow> sound_start ma pSound st;
               Some (if result \<noteq> MA_SUCCESS
                     then report ERROR ''Failed to resume sound with ID. Result:''
                            [Str s_soundId, Res result] st1
                     else report INFO ''Resumed sound ID'' [Str s_soundId] st1)
             }
           | None \<Rightarrow>
               Some (report WARNING ''Attempted to resume non-existent sound ID'' [Str s_soundId] st)))"

text \<open>\<open>std::clamp(v, lo, hi)\<close>: \<open>(v < lo) ? lo : (hi < v) ? hi : v\<close>.\<close>

definition std_clamp :: "cfloat \<Rightarrow> cfloat \<Rightarrow> cfloat \<Rightarrow> cfloat" where
  "std_clamp v lo hi = (if float_lt v lo then lo else if float_lt hi v then hi else v)"

definition SetSoundVolume ::
  "'s miniaudio \<Rightarrow> string option \<Rightarrow> cfloat \<Rightarrow> 's sound_system \<Rightarrow> 's sound_system option" where
  "SetSoundVolume ma soundId volume st =
     (case soundId of
        None \<Rightarrow> Some (report ERROR ''SetSoundVolume received null soundId.'' [] st)
      | Some s_soundId \<Rightarrow>
          (case map_find (g_loadedSounds st) s_soundId of
             Some pSound \<Rightarrow> do {
               st1 \<leftarrow> sound_set_volume ma pSound (std_clamp volume (Finite 0) (Finite 1)) st;
               Some (report INFO ''Volume for sound ID set to''
                      [Str s_soundId, Num (std_clamp volume (Finite 0) (Finite 1))] st1)
             }
           | None \<Rightarrow>
               Some (report WARNING ''Attempted to set volume for non-existent sound ID''
                      [Str s_soundId] st)))"

definition SetSoundPan ::
  "'s miniaudio \<Rightarrow> string option \<Rightarrow> cfloat \<Rightarrow> 's sound_system \<Rightarrow> 's sound_system option" where
  "SetSoundPan ma soundId pan st =
     (case soundId of
        None \<Rightarrow> Some (report ERROR ''SetSoundPan received null soundId.'' [] st)
      | Some s_soundId \<Rightarrow>
          (case map_find (g_loadedSounds st) s_soundId of
             Some pSound \<Rightarrow> do {
               st1 \<leftarrow> sound_set_pan ma pSound (std_clamp pan (Finite (- 1)) (Finite 1)) st;
               Some (report INFO ''Pan for sound ID set to''
                      [Str s_soundId, Num (std_clamp pan (Finite (- 1)) (Finite 1))] st1)
             }
           | None \<Rightarrow>
               Some (report WARNING ''Attempted to set pan for non-existent sound ID''
                      [Str s_soundId] st)))"

text \<open>
  \<open>if (pitch <= 0.0f) pitch = 0.001f;\<close> The literal \<open>0.001f\<close> is the binary32 value
  nearest to 0.001, which is 8589935 / 2^33.
\<close>

definition floor_pitch :: "cfloat \<Rightarrow> cfloat" where
  "floor_pitch pitch =
     (if float_le pitch (Finite 0) then Finite (8589935 / 8589934592) else pitch)"

definition SetSoundPitch ::
  "'s miniaudio \<Rightarrow> string option \<Rightarrow> cfloat \<Rightarrow> 's sound_system \<Rightarrow> 's sound_system option" where
  "SetSoundPitch ma soundId pitch st =
     (case soundId of
        None \<Rightarrow> Some (report ERROR ''SetSoundPitch received null soundId.'' [] st)
      | Some s_soundId \<Rightarrow>
          (case map_find (g_loadedSounds st) s_soundId of
             Some pSound \<Rightarrow> do {
               st1 \<leftarrow> sound_set_pitch ma pSound (floor_pitch pitch) st;
               Some (report INFO ''Pitch for sound ID set to''
                      [Str s_soundId, Num (floor_pitch pitch)] st1)
             }
           | None \<Rightarrow>
               Some (report WARNING ''Attempted to set pitch for non-existent sound ID''
                      [Str s_soundId] st)))"

definition SetSoundPosition ::
  "'s miniaudio \<Rightarrow> string option \<Rightarrow> cfloat \<Rightarrow> cfloat \<Rightarrow> cfloat \<Rightarrow> 's sound_system \<Rightarrow> 's sound_system option" where
  "SetSoundPosition ma soundId x y z st =
     (case soundId of
        None \<Rightarrow> Some (report ERROR ''SetSoundPosition received null soundId.'' [] st)
      | Some s_soundId \<Rightarrow>
          (case map_find (g_loadedSounds st) s_soundId of
             Some pSound \<Rightarrow> do {
               st1 \<leftarrow> sound_set_position ma pSound x y z st;
               Some (report INFO ''Position for sound ID set to'' [Str s_soundId, Num x, Num y, Num z] st1)
             }
           | None \<Rightarrow>
               Some (report WARNING ''Attempted to set position for non-existent sound ID''
                      [Str s_soundId] st)))"

text \<open>\<open>IsSoundPlaying\<close> writes nothing: it only answers.\<close>

definition IsSoundPlaying :: "'s miniaudio \<Rightarrow> string option \<Rightarrow> 's sound_system \<Rightarrow> bool option" where
  "IsSoundPlaying ma soundId st =
     (case soundId of
        None \<Rightarrow> Some False
      | Some s_soundId \<Rightarrow>
          (case map_find (g_loadedSounds st) s_soundId of
             Some pSound \<Rightarrow> sound_is_playing ma pSound st
           | None \<Rightarrow> Some False))"

text \<open>
  The three functions that take no identifier act on \<open>g_engine\<close> alone, whose state is
  not modelled: what remains of them is the call and the line they print.
\<close>

definition SetMasterVolume :: "cfloat \<Rightarrow> 's sound_system \<Rightarrow> 's sound_system" where
  "SetMasterVolume volume st =
     report INFO ''Master volume set to'' [Num (std_clamp volume (Finite 0) (Finite 1))]
       (emit (Call_ma_engine_set_volume (std_clamp volume (Finite 0) (Finite 1))) st)"

definition SetListenerPosition :: "cfloat \<Rightarrow> cfloat \<Rightarrow> cfloat \<Rightarrow> 's sound_system \<Rightarrow> 's sound_system" where
  "SetListenerPosition x y z st =
     report INFO ''Listener position set to'' [Num x, Num y, Num z]
       (emit (Call_ma_engine_listener_set_position 0 x y z) st)"

definition SetListenerOrientation :: "cfloat \<Rightarrow> cfloat \<Rightarrow> cfloat \<Rightarrow> 's sound_system \<Rightarrow> 's sound_system" where
  "SetListenerOrientation forwardX forwardY forwardZ st =
     report INFO ''Listener orientation set (Forward)'' [Num forwardX, Num forwardY, Num forwardZ]
       (emit (Call_ma_engine_listener_set_direction 0 forwardX forwardY forwardZ) st)"

subsection \<open>What the properties assume of the engine\<close>

text \<open>
  The hypotheses on the engine that the properties about positions and playing states
  use. They say what SoundSystem.cpp relies on (\<open>In miniaudio, stop and start are used
  for pause/resume as well\<close>); none says that the engine accepts a request.
\<close>

text \<open>Stopping and starting a sound never move its cursor backwards.\<close>

definition stop_keeps_position :: "'s miniaudio \<Rightarrow> bool" where
  "stop_keeps_position ma \<longleftrightarrow>
     (\<forall>s. ma_sound_get_cursor_in_pcm_frames ma s
            \<le> ma_sound_get_cursor_in_pcm_frames ma (snd (ma_sound_stop ma s)))"

definition start_keeps_position :: "'s miniaudio \<Rightarrow> bool" where
  "start_keeps_position ma \<longleftrightarrow>
     (\<forall>s. ma_sound_get_cursor_in_pcm_frames ma s
            \<le> ma_sound_get_cursor_in_pcm_frames ma (snd (ma_sound_start ma s)))"

text \<open>A stop or start the engine accepts takes effect.\<close>

definition stop_takes_effect :: "'s miniaudio \<Rightarrow> bool" where
  "stop_takes_effect ma \<longleftrightarrow>
     (\<forall>s. fst (ma_sound_stop ma s) = MA_SUCCESS \<longrightarrow> \<not> ma_sound_is_playing ma (snd (ma_sound_stop ma s)))"

definition start_takes_effect :: "'s miniaudio \<Rightarrow> bool" where
  "start_takes_effect ma \<longleftrightarrow>
     (\<forall>s. fst (ma_sound_start ma s) = MA_SUCCESS \<longrightarrow> ma_sound_is_playing ma (snd (ma_sound_start ma s)))"

text \<open>Seeking puts the cursor on the frame asked for and neither starts nor stops the sound.\<close>

definition seek_takes_effect :: "'s miniaudio \<Rightarrow> bool" where
  "seek_takes_effect ma \<longleftrightarrow>
     (\<forall>s f. ma_sound_get_cursor_in_pcm_frames ma (snd (ma_sound_seek_to_pcm_frame ma s f)) = f
          \<and> ma_sound_is_playing ma (snd (ma_sound_seek_to_pcm_frame ma s f)) = ma_sound_is_playing ma s)"

text \<open>Setting the looping flag leaves the cursor where it is.\<close>

definition set_looping_keeps_position :: "'s miniaudio \<Rightarrow> bool" where
  "set_looping_keeps_position ma \<longleftrightarrow>
     (\<forall>s loop. ma_sound_get_cursor_in_pcm_frames ma (ma_sound_set_looping ma s loop)
                = ma_sound_get_cursor_in_pcm_frames ma s)"

subsection \<open>The registry's invariant\<close>

text \<open>
  Keys are in strictly increasing order (so each occurs once), every entry's pointer is
  non-null and designates a live object, and no two entries share an object.
\<close>

definition valid_registry :: "'s sound_system \<Rightarrow> bool" where
  "valid_registry st \<longleftrightarrow>
     sorted_wrt (<) (map fst (g_loadedSounds st)) \<and>
     distinct (map snd (g_loadedSounds st)) \<and>
     (\<forall>p \<in> set (map snd (g_loadedSounds st)). sound_at st p \<noteq> None)"

subsection \<open>A concrete engine and concrete states\<close>

text \<open>
  One engine to run the functions on: a sound is its playing flag, its cursor and its
  parameters; every request is accepted, except the decoding of \<open>missing.wav\<close>.
\<close>

record demo_sound =
  d_playing :: bool
  d_frame :: "64 word"
  d_looping :: bool
  d_volume :: cfloat
  d_pan :: cfloat
  d_pitch :: cfloat
  d_position :: "cfloat \<times> cfloat \<times> cfloat"
  d_file :: string

definition decoded :: "string \<Rightarrow> demo_sound" where
  "decoded path =
     \<lparr>d_playing = False, d_frame = 0, d_looping = False, d_volume = Finite 1, d_pan = Finite 0,
      d_pitch = Finite 1, d_position = (Finite 0, Finite 0, Finite 0), d_file = path\<rparr>"

definition demo_engine :: "demo_sound miniaudio" where
  "demo_engine =
     \<lparr>ma_engine_init = MA_SUCCESS,
      ma_sound_init_from_file =
        (\<lambda>path. (if path = ''missing.wav'' then - 7 else MA_SUCCESS, decoded path)),
      ma_sound_is_playing = d_playing,
      ma_sound_stop = (\<lambda>s. (MA_SUCCESS, s\<lparr>d_playing := False\<rparr>)),
      ma_sound_start = (\<lambda>s. (MA_SUCCESS, s\<lparr>d_playing := True\<rparr>)),
      ma_sound_seek_to_pcm_frame = (\<lambda>s f. (MA_SUCCESS, s\<lparr>d_frame := f\<rparr>)),
      ma_sound_set_looping = (\<lambda>s loop. s\<lparr>d_looping := loop\<rparr>),
      ma_sound_set_volume = (\<lambda>s v. s\<lparr>d_volume := v\<rparr>),
      ma_sound_set_pan = (\<lambda>s v. s\<lparr>d_pan := v\<rparr>),
      ma_sound_set_pitch = (\<lambda>s v. s\<lparr>d_pitch := v\<rparr>),
      ma_sound_set_position = (\<lambda>s x y z. s\<lparr>d_position := (x, y, z)\<rparr>),
      ma_sound_get_cursor_in_pcm_frames = d_frame\<rparr>"

text \<open>
  The same engine, rejecting every stop and start request and leaving the sound as it
  is: the branches \<open>result != MA_SUCCESS\<close> of \<open>StopSound\<close>, \<open>PauseSound\<close>,
  \<open>ResumeSound\<close> and \<open>SndPlaySound\<close> are for such answers (the spec's engine
  answers a start or stop with ok or error).
\<close>

definition rejecting_engine :: "demo_sound miniaudio" where
  "rejecting_engine =
     demo_engine\<lparr>ma_sound_stop := (\<lambda>s. (- 3, s)), ma_sound_start := (\<lambda>s. (- 3, s))\<rparr>"

text \<open>
  The accepting engine again, but its stop also puts the cursor back on frame 0: the
  spec's design notes leave open whether the engine's stop does so.
\<close>

definition rewinding_engine :: "demo_sound miniaudio" where
  "rewinding_engine =
     demo_engine\<lparr>ma_sound_stop := (\<lambda>s. (MA_SUCCESS, s\<lparr>d_playing := False, d_frame := 0\<rparr>))\<rparr>"

text \<open>
  A registry with two entries: \<open>explosion\<close> is playing and has reached frame 5,
  \<open>music\<close> is not playing and rests at frame 7 (it was paused there).
\<close>

definition demo_state :: "demo_sound sound_system" where
  "demo_state =
     \<lparr>g_loadedSounds = [(''explosion'', 100), (''music'', 200)],
      heap = [100 \<mapsto> (decoded ''a.wav'')\<lparr>d_playing := True, d_frame := 5\<rparr>,
              200 \<mapsto> (decoded ''b.ogg'')\<lparr>d_frame := 7\<rparr>],
      events = []\<rparr>"

text \<open>The state before anything is loaded.\<close>

definition empty_state :: "demo_sound sound_system" where
  "empty_state = \<lparr>g_loadedSounds = [], heap = Map.empty, events = []\<rparr>"

section \<open>Properties\<close>

subsection \<open>Reading the state after a step\<close>

lemma emit_simps [simp]:
  "g_loadedSounds (emit e st) = g_loadedSounds st"
  "heap (emit e st) = heap st"
  "events (emit e st) = events st @ [e]"
  by (simp_all add: emit_def)

lemma report_simps [simp]:
  "g_loadedSounds (report sev txt args st) = g_loadedSounds st"
  "heap (report sev txt args st) = heap st"
  "events (report sev txt args st) = events st @ [Report sev txt args]"
  by (simp_all add: report_def)

lemma store_simps [simp]:
  "g_loadedSounds (store p s st) = g_loadedSounds st"
  "heap (store p s st) = (heap st)(p \<mapsto> s)"
  "events (store p s st) = events st"
  by (simp_all add: store_def)

lemma delete_sound_simps [simp]:
  "g_loadedSounds (delete_sound p st) = g_loadedSounds st"
  "heap (delete_sound p st) = (heap st)(p := None)"
  "events (delete_sound p st) = events st @ [Delete p]"
  by (simp_all add: delete_sound_def)

lemma sound_at_simps [simp]:
  "sound_at (emit e st) p = sound_at st p"
  "sound_at (report sev txt args st) p = sound_at st p"
  "sound_at (store q s st) p = (if p = nullptr then None else if p = q then Some s else sound_at st p)"
  by (simp_all add: sound_at_def)

lemma sound_at_more_simps [simp]:
  "sound_at (delete_sound q st) p = (if p = q then None else sound_at st p)"
  "sound_at (st\<lparr>g_loadedSounds := m\<rparr>) p = sound_at st p"
  "sound_at (st\<lparr>events := es\<rparr>) p = sound_at st p"
  by (simp_all add: sound_at_def)

lemma sound_at_nullptr [simp]: "sound_at st nullptr = None"
  by (simp add: sound_at_def)

lemma sound_at_not_null: "sound_at st p = Some s \<Longrightarrow> p \<noteq> nullptr"
  by (auto simp: sound_at_def split: if_splits)

lemma with_result_Some:
  "sound_at st p = Some s \<Longrightarrow>
   with_result e p f st = Some (fst (f s), emit e (store p (snd (f s)) st))"
  by (simp add: with_result_def)

lemma without_result_Some:
  "sound_at st p = Some s \<Longrightarrow> without_result e p f st = Some (emit e (store p (f s) st))"
  by (simp add: without_result_def)

lemma actions_append [simp]: "actions (es @ fs) = actions es @ actions fs"
  by (simp add: actions_def)

lemma actions_simps [simp]:
  "actions [] = []"
  "actions (Report sev txt args # es) = actions es"
  "\<not> is_report e \<Longrightarrow> actions (e # es) = e # actions es"
  by (simp_all add: actions_def)

lemmas call_defs = sound_stop_def sound_start_def sound_seek_to_pcm_frame_def sound_set_looping_def
  sound_set_volume_def sound_set_pan_def sound_set_pitch_def sound_set_position_def sound_uninit_def
  sound_is_playing_def sound_cursor_def

subsection \<open>The registry as a map\<close>

lemma map_find_map_assign:
  "map_find (map_assign k v m) k' = (if k' = k then Some v else map_find m k')"
  by (induction m) (auto simp: map_find_def)

lemma map_find_in_set: "map_find m k = Some p \<Longrightarrow> p \<in> snd ` set m"
  using map_of_SomeD [of m k p] by (force simp: map_find_def)

lemma set_map_assign: "set (map_assign k v m) \<subseteq> insert (k, v) (set m)"
  by (induction k v m rule: map_assign.induct) auto

lemma snd_set_map_assign: "snd ` set (map_assign k v m) \<subseteq> insert v (snd ` set m)"
  using image_mono [OF set_map_assign, of snd k v m] by simp

lemma sorted_map_assign:
  "sorted_wrt (<) (map fst m) \<Longrightarrow> sorted_wrt (<) (map fst (map_assign k v m))"
proof (induction m)
  case Nil
  then show ?case by simp
next
  case (Cons e m)
  obtain k' v' where e: "e = (k', v')" by (cases e)
  have "\<forall>x \<in> set (map_assign k v m). k' < fst x" if "k' < k"
    using that Cons.prems e set_map_assign [of k v m] by auto
  then show ?case
    using Cons e by (auto intro: less_trans)
qed

lemma distinct_map_assign:
  "map_find m k = None \<Longrightarrow> distinct (map snd m) \<Longrightarrow> v \<notin> set (map snd m)
   \<Longrightarrow> distinct (map snd (map_assign k v m))"
proof (induction m)
  case Nil
  then show ?case by simp
next
  case (Cons e m)
  obtain k' v' where e: "e = (k', v')" by (cases e)
  have "v' \<notin> snd ` set (map_assign k v m)"
    using Cons.prems e set_map_assign [of k v m] by (auto simp: image_iff)
  then show ?case
    using Cons e by (auto simp: map_find_def split: if_splits)
qed

lemma set_map_erase: "set (map_erase k m) \<subseteq> set m"
  by (induction k m rule: map_erase.induct) auto

lemma sorted_map_erase:
  "sorted_wrt (<) (map fst m) \<Longrightarrow> sorted_wrt (<) (map fst (map_erase k m))"
proof (induction m)
  case Nil
  then show ?case by simp
next
  case (Cons e m)
  obtain k' v' where e: "e = (k', v')" by (cases e)
  have "\<forall>x \<in> set (map_erase k m). k' < fst x"
    using Cons.prems e set_map_erase [of k m] by auto
  then show ?case
    using Cons e by auto
qed

lemma distinct_map_erase:
  "distinct (map snd m) \<Longrightarrow> distinct (map snd (map_erase k m))"
proof (induction m)
  case Nil
  then show ?case by simp
next
  case (Cons e m)
  obtain k' v' where e: "e = (k', v')" by (cases e)
  have "v' \<notin> snd ` set (map_erase k m)"
    using Cons.prems e set_map_erase [of k m] by auto
  then show ?case
    using Cons e by auto
qed

lemma erased_pointer_gone:
  "map_find m k = Some p \<Longrightarrow> distinct (map snd m) \<Longrightarrow> p \<notin> snd ` set (map_erase k m)"
proof (induction m)
  case Nil
  then show ?case by (simp add: map_find_def)
next
  case (Cons e m)
  obtain k' v' where e: "e = (k', v')" by (cases e)
  show ?case
  proof (cases "k = k'")
    case True
    then show ?thesis using Cons.prems e by (auto simp: map_find_def)
  next
    case False
    then have f: "map_find m k = Some p" using Cons.prems e by (simp add: map_find_def)
    then have "p \<in> snd ` set m" by (rule map_find_in_set)
    then have "p \<noteq> v'" using Cons.prems e by auto
    then show ?thesis using Cons f e False by auto
  qed
qed

subsection \<open>The functions on an entry that is present\<close>

lemma LoadSound_present:
  assumes "map_find (g_loadedSounds st) soundId \<noteq> None"
  shows "LoadSound ma pSound (Some filePath) (Some soundId) st =
           (True, report WARNING ''Sound ID already loaded. Ignoring.'' [Str soundId] st)"
  using assms by (simp add: LoadSound_def)

lemma LoadSound_success_present:
  assumes "fst (LoadSound ma pSound (Some filePath) (Some soundId) st)"
  shows "map_find (g_loadedSounds (snd (LoadSound ma pSound (Some filePath) (Some soundId) st))) soundId
           \<noteq> None"
  using assms
  by (auto simp: LoadSound_def Let_def map_find_map_assign split: if_splits prod.splits)

lemma LoadSound_fresh_accepted:
  assumes "map_find (g_loadedSounds st) soundId = None" and "pSound \<noteq> nullptr"
      and "fst (ma_sound_init_from_file ma filePath) = MA_SUCCESS"
  shows "LoadSound ma pSound (Some filePath) (Some soundId) st =
           (True, report INFO ''Loaded sound as ID'' [Str filePath, Str soundId]
                   ((emit (Call_ma_sound_init_from_file filePath pSound)
                      (store pSound (snd (ma_sound_init_from_file ma filePath)) (emit (New pSound) st)))
                     \<lparr>g_loadedSounds := map_assign soundId pSound (g_loadedSounds st)\<rparr>))"
  using assms by (simp add: LoadSound_def Let_def case_prod_beta)

lemma LoadSound_fresh_rejected:
  assumes "map_find (g_loadedSounds st) soundId = None" and "pSound \<noteq> nullptr"
      and "fst (ma_sound_init_from_file ma filePath) \<noteq> MA_SUCCESS"
  shows "LoadSound ma pSound (Some filePath) (Some soundId) st =
           (False, delete_sound pSound
                     (report ERROR ''Failed to load sound. Result:''
                        [Str filePath, Res (fst (ma_sound_init_from_file ma filePath))]
                        (emit (Call_ma_sound_init_from_file filePath pSound)
                          (store pSound (snd (ma_sound_init_from_file ma filePath))
                            (emit (New pSound) st)))))"
  using assms by (simp add: LoadSound_def Let_def case_prod_beta)

lemma SndPlaySound_playing:
  assumes "map_find (g_loadedSounds st) soundId = Some pSound" and "sound_at st pSound = Some s"
      and "ma_sound_is_playing ma s"
  shows "SndPlaySound ma (Some soundId) loop st =
     Some ((if fst (ma_sound_start ma (ma_sound_set_looping ma
                  (snd (ma_sound_seek_to_pcm_frame ma (snd (ma_sound_stop ma s)) 0)) loop)) \<noteq> MA_SUCCESS
            then report ERROR ''Failed to play sound with ID. Result:''
                   [Str soundId, Res (fst (ma_sound_start ma (ma_sound_set_looping ma
                      (snd (ma_sound_seek_to_pcm_frame ma (snd (ma_sound_stop ma s)) 0)) loop)))]
            else report INFO ''Playing sound ID (Looping)'' [Str soundId, Flag loop])
       (emit (Call_ma_sound_start pSound)
         (store pSound (snd (ma_sound_start ma (ma_sound_set_looping ma
                  (snd (ma_sound_seek_to_pcm_frame ma (snd (ma_sound_stop ma s)) 0)) loop)))
           (emit (Call_ma_sound_set_looping pSound loop)
             (store pSound (ma_sound_set_looping ma
                  (snd (ma_sound_seek_to_pcm_frame ma (snd (ma_sound_stop ma s)) 0)) loop)
               (emit (Call_ma_sound_seek_to_pcm_frame pSound 0)
                 (store pSound (snd (ma_sound_seek_to_pcm_frame ma (snd (ma_sound_stop ma s)) 0))
                   (emit (Call_ma_sound_stop pSound)
                     (store pSound (snd (ma_sound_stop ma s)) st)))))))))"
proof -
  have nn: "pSound \<noteq> nullptr" using assms(2) by (rule sound_at_not_null)
  show ?thesis
    using assms nn
    by (simp add: SndPlaySound_def sound_is_playing_def sound_stop_def sound_seek_to_pcm_frame_def
        sound_set_looping_def sound_start_def with_result_Some without_result_Some)
qed

lemma StopSound_not_playing:
  assumes "map_find (g_loadedSounds st) soundId = Some pSound" and "sound_at st pSound = Some s"
      and "\<not> ma_sound_is_playing ma s"
  shows "StopSound ma (Some soundId) st =
           Some (report INFO ''Sound ID is not playing. No action needed.'' [Str soundId] st)"
  using assms by (simp add: StopSound_def sound_is_playing_def)

lemma StopSound_rejected:
  assumes "map_find (g_loadedSounds st) soundId = Some pSound" and "sound_at st pSound = Some s"
      and "ma_sound_is_playing ma s" and "fst (ma_sound_stop ma s) \<noteq> MA_SUCCESS"
  shows "StopSound ma (Some soundId) st =
           Some (report ERROR ''Failed to stop sound with ID. Result:''
                   [Str soundId, Res (fst (ma_sound_stop ma s))]
                  (emit (Call_ma_sound_stop pSound) (store pSound (snd (ma_sound_stop ma s)) st)))"
  using assms by (simp add: StopSound_def sound_is_playing_def sound_stop_def with_result_Some)

lemma StopSound_accepted:
  assumes "map_find (g_loadedSounds st) soundId = Some pSound" and "sound_at st pSound = Some s"
      and "ma_sound_is_playing ma s" and "fst (ma_sound_stop ma s) = MA_SUCCESS"
  shows "StopSound ma (Some soundId) st =
           Some (report INFO ''Stopped sound ID'' [Str soundId]
                  (emit (Call_ma_sound_seek_to_pcm_frame pSound 0)
                    (store pSound (snd (ma_sound_seek_to_pcm_frame ma (snd (ma_sound_stop ma s)) 0))
                      (emit (Call_ma_sound_stop pSound) (store pSound (snd (ma_sound_stop ma s)) st)))))"
proof -
  have nn: "pSound \<noteq> nullptr" using assms(2) by (rule sound_at_not_null)
  show ?thesis
    using assms nn
    by (simp add: StopSound_def sound_is_playing_def sound_stop_def sound_seek_to_pcm_frame_def
        with_result_Some)
qed

lemma PauseSound_present:
  assumes "map_find (g_loadedSounds st) soundId = Some pSound" and "sound_at st pSound = Some s"
  shows "PauseSound ma (Some soundId) st =
           Some ((if fst (ma_sound_stop ma s) \<noteq> MA_SUCCESS
                  then report ERROR ''Failed to pause sound with ID. Result:''
                         [Str soundId, Res (fst (ma_sound_stop ma s))]
                  else report INFO ''Paused sound ID'' [Str soundId])
                 (emit (Call_ma_sound_stop pSound) (store pSound (snd (ma_sound_stop ma s)) st)))"
  using assms by (simp add: PauseSound_def sound_stop_def with_result_Some)

lemma ResumeSound_present:
  assumes "map_find (g_loadedSounds st) soundId = Some pSound" and "sound_at st pSound = Some s"
  shows "ResumeSound ma (Some soundId) st =
           Some ((if fst (ma_sound_start ma s) \<noteq> MA_SUCCESS
                  then report ERROR ''Failed to resume sound with ID. Result:''
                         [Str soundId, Res (fst (ma_sound_start ma s))]
                  else report INFO ''Resumed sound ID'' [Str soundId])
                 (emit (Call_ma_sound_start pSound) (store pSound (snd (ma_sound_start ma s)) st)))"
  using assms by (simp add: ResumeSound_def sound_start_def with_result_Some)

subsection \<open>The concrete engine and states\<close>

lemma demo_explosion: "map_find (g_loadedSounds demo_state) ''explosion'' = Some 100"
  by (simp add: demo_state_def map_find_def)

lemma demo_music: "map_find (g_loadedSounds demo_state) ''music'' = Some 200"
  by (simp add: demo_state_def map_find_def)

lemma demo_laser_fresh: "map_find (g_loadedSounds demo_state) ''laser'' = None"
  by (simp add: demo_state_def map_find_def)

lemma demo_explosion_at:
  "sound_at demo_state 100 = Some ((decoded ''a.wav'')\<lparr>d_playing := True, d_frame := 5\<rparr>)"
  by (simp add: demo_state_def sound_at_def nullptr_def)

lemma demo_music_at:
  "sound_at demo_state 200 = Some ((decoded ''b.ogg'')\<lparr>d_frame := 7\<rparr>)"
  by (simp add: demo_state_def sound_at_def nullptr_def)

lemma demo_events: "events demo_state = []"
  by (simp add: demo_state_def)

lemma empty_state_simps [simp]:
  "g_loadedSounds empty_state = []" "heap empty_state = Map.empty" "events empty_state = []"
  by (simp_all add: empty_state_def)

lemma ptr_300_not_null: "(300 :: ptr) \<noteq> nullptr"
  by (simp add: nullptr_def)

lemma demo_engine_simps [simp]:
  "ma_sound_is_playing demo_engine = d_playing"
  "ma_sound_stop demo_engine s = (MA_SUCCESS, s\<lparr>d_playing := False\<rparr>)"
  "ma_sound_start demo_engine s = (MA_SUCCESS, s\<lparr>d_playing := True\<rparr>)"
  "ma_sound_seek_to_pcm_frame demo_engine s f = (MA_SUCCESS, s\<lparr>d_frame := f\<rparr>)"
  "ma_sound_set_looping demo_engine s b = s\<lparr>d_looping := b\<rparr>"
  "ma_sound_get_cursor_in_pcm_frames demo_engine = d_frame"
  "ma_sound_init_from_file demo_engine path =
     (if path = ''missing.wav'' then - 7 else MA_SUCCESS, decoded path)"
  by (simp_all add: demo_engine_def)

lemma rejecting_engine_simps [simp]:
  "ma_sound_is_playing rejecting_engine = d_playing"
  "ma_sound_stop rejecting_engine s = (- 3, s)"
  "ma_sound_start rejecting_engine s = (- 3, s)"
  "ma_sound_seek_to_pcm_frame rejecting_engine s f = (MA_SUCCESS, s\<lparr>d_frame := f\<rparr>)"
  "ma_sound_get_cursor_in_pcm_frames rejecting_engine = d_frame"
  by (simp_all add: rejecting_engine_def demo_engine_def)

lemma rewinding_engine_simps [simp]:
  "ma_sound_is_playing rewinding_engine = d_playing"
  "ma_sound_stop rewinding_engine s = (MA_SUCCESS, s\<lparr>d_playing := False, d_frame := 0\<rparr>)"
  "ma_sound_start rewinding_engine s = (MA_SUCCESS, s\<lparr>d_playing := True\<rparr>)"
  "ma_sound_get_cursor_in_pcm_frames rewinding_engine = d_frame"
  by (simp_all add: rewinding_engine_def demo_engine_def)

lemma float_le_simps [simp]:
  "float_le NaN b = False"
  "float_le a NaN = False"
  "float_le (Finite x) (Finite y) = (x \<le> y)"
  "float_le NegInf (Finite y) = True"
  "float_le (Finite x) PosInf = True"
  "float_le PosInf (Finite y) = False"
  "float_le (Finite x) NegInf = False"
  by (cases a; cases b; auto simp: float_le_def)+

lemma demo_engine_contract:
  "stop_keeps_position demo_engine" "start_keeps_position demo_engine"
  "stop_takes_effect demo_engine" "start_takes_effect demo_engine"
  "seek_takes_effect demo_engine" "set_looping_keeps_position demo_engine"
  by (simp_all add: stop_keeps_position_def start_keeps_position_def stop_takes_effect_def
      start_takes_effect_def seek_takes_effect_def set_looping_keeps_position_def)

lemma rejecting_engine_contract:
  "seek_takes_effect rejecting_engine" "stop_takes_effect rejecting_engine"
  by (simp_all add: seek_takes_effect_def stop_takes_effect_def MA_SUCCESS_def)

lemma demo_state_valid: "valid_registry demo_state"
  by (simp add: valid_registry_def demo_state_def sound_at_def nullptr_def)

subsection \<open>Loading\<close>

text \<open>
  Claim C4. For every registry state and every identifier already present, \<open>LoadSound\<close>
  with that identifier and any path returns success, creates no second entry and leaves
  the existing entry unaltered; loading the same identifier twice is idempotent.

  \<open>LoadSound\<close> looks the identifier up before it allocates or decodes anything, so on
  a present identifier it returns \<open>true\<close> and only prints a warning: the registry, the
  objects and the calls made so far are what they were. Hence whenever a first
  \<open>LoadSound\<close> succeeds, a second one with the same identifier (any path, any
  allocation) succeeds and leaves the state of the first. (A null path is no path:
  it is rejected before the lookup.)
\<close>

theorem load_same_id_again_changes_nothing:
  "(map_find (g_loadedSounds st) soundId \<noteq> None \<longrightarrow>
      LoadSound ma pSound (Some filePath) (Some soundId) st =
        (True, report WARNING ''Sound ID already loaded. Ignoring.'' [Str soundId] st)
    \<and> g_loadedSounds (snd (LoadSound ma pSound (Some filePath) (Some soundId) st)) = g_loadedSounds st
    \<and> heap (snd (LoadSound ma pSound (Some filePath) (Some soundId) st)) = heap st
    \<and> actions (events (snd (LoadSound ma pSound (Some filePath) (Some soundId) st)))
        = actions (events st))
   \<and> (fst (LoadSound ma pSound (Some filePath) (Some soundId) st) \<longrightarrow>
        LoadSound ma pSound' (Some filePath') (Some soundId)
            (snd (LoadSound ma pSound (Some filePath) (Some soundId) st)) =
          (True, report WARNING ''Sound ID already loaded. Ignoring.'' [Str soundId]
                   (snd (LoadSound ma pSound (Some filePath) (Some soundId) st))))"
proof (intro conjI impI)
  assume a: "map_find (g_loadedSounds st) soundId \<noteq> None"
  show "LoadSound ma pSound (Some filePath) (Some soundId) st =
        (True, report WARNING ''Sound ID already loaded. Ignoring.'' [Str soundId] st)"
    using a by (rule LoadSound_present)
  then show "g_loadedSounds (snd (LoadSound ma pSound (Some filePath) (Some soundId) st)) = g_loadedSounds st"
    and "heap (snd (LoadSound ma pSound (Some filePath) (Some soundId) st)) = heap st"
    and "actions (events (snd (LoadSound ma pSound (Some filePath) (Some soundId) st)))
        = actions (events st)"
    by simp_all
next
  assume "fst (LoadSound ma pSound (Some filePath) (Some soundId) st)"
  then have "map_find (g_loadedSounds (snd (LoadSound ma pSound (Some filePath) (Some soundId) st))) soundId
           \<noteq> None"
    by (rule LoadSound_success_present)
  then show "LoadSound ma pSound' (Some filePath') (Some soundId)
            (snd (LoadSound ma pSound (Some filePath) (Some soundId) st)) =
          (True, report WARNING ''Sound ID already loaded. Ignoring.'' [Str soundId]
                   (snd (LoadSound ma pSound (Some filePath) (Some soundId) st)))"
    by (rule LoadSound_present)
qed

theorem load_same_id_again_changes_nothing_witness:
  "map_find (g_loadedSounds demo_state) ''explosion'' \<noteq> None
   \<and> LoadSound demo_engine 300 (Some ''other.wav'') (Some ''explosion'') demo_state =
       (True, report WARNING ''Sound ID already loaded. Ignoring.'' [Str ''explosion''] demo_state)
   \<and> fst (LoadSound demo_engine 300 (Some ''laser.wav'') (Some ''laser'') demo_state)
   \<and> LoadSound demo_engine 400 (Some ''other.wav'') (Some ''laser'')
         (snd (LoadSound demo_engine 300 (Some ''laser.wav'') (Some ''laser'') demo_state)) =
       (True, report WARNING ''Sound ID already loaded. Ignoring.'' [Str ''laser'']
                (snd (LoadSound demo_engine 300 (Some ''laser.wav'') (Some ''laser'') demo_state)))"
proof -
  have a: "fst (LoadSound demo_engine 300 (Some ''laser.wav'') (Some ''laser'') demo_state)"
    by (simp add: LoadSound_fresh_accepted [OF demo_laser_fresh ptr_300_not_null])
  show ?thesis
    using load_same_id_again_changes_nothing
            [of demo_state "''explosion''" demo_engine 300 "''other.wav''"]
          load_same_id_again_changes_nothing
            [of demo_state "''laser''" demo_engine 300 "''laser.wav''" 400 "''other.wav''"] a
    by (simp add: demo_explosion)
qed

text \<open>
  Claim C5. For every registry state and every fresh identifier, if the engine's
  decode-and-prepare step fails, \<open>LoadSound\<close> releases what it allocated, returns
  failure and leaves the registry exactly as before: no entry inserted, none changed.

  The events of the call are the allocation, the call of \<open>ma_sound_init_from_file\<close>,
  the error line and the \<open>delete\<close> of the allocated object; the store of objects is
  the one before the call.
\<close>

theorem load_failure_leaves_registry:
  assumes fresh: "map_find (g_loadedSounds st) soundId = None"
      and allocated: "pSound \<noteq> nullptr" and unused: "heap st pSound = None"
      and rejected: "fst (ma_sound_init_from_file ma filePath) \<noteq> MA_SUCCESS"
  shows "\<exists>st'. LoadSound ma pSound (Some filePath) (Some soundId) st = (False, st')
          \<and> g_loadedSounds st' = g_loadedSounds st
          \<and> heap st' = heap st
          \<and> events st' = events st
               @ [New pSound, Call_ma_sound_init_from_file filePath pSound,
                  Report ERROR ''Failed to load sound. Result:''
                    [Str filePath, Res (fst (ma_sound_init_from_file ma filePath))],
                  Delete pSound]"
  using LoadSound_fresh_rejected [OF fresh allocated rejected] unused
  by (simp add: fun_upd_idem)

theorem load_failure_leaves_registry_witness:
  "map_find (g_loadedSounds demo_state) ''laser'' = None
   \<and> (300 :: ptr) \<noteq> nullptr \<and> heap demo_state 300 = None
   \<and> fst (ma_sound_init_from_file demo_engine ''missing.wav'') \<noteq> MA_SUCCESS
   \<and> (\<exists>st'. LoadSound demo_engine 300 (Some ''missing.wav'') (Some ''laser'') demo_state = (False, st')
          \<and> g_loadedSounds st' = g_loadedSounds demo_state
          \<and> heap st' = heap demo_state
          \<and> events st' =
               [New 300, Call_ma_sound_init_from_file ''missing.wav'' 300,
                Report ERROR ''Failed to load sound. Result:'' [Str ''missing.wav'', Res (- 7)],
                Delete 300])"
proof -
  have a: "map_find (g_loadedSounds demo_state) ''laser'' = None"
    by (simp add: demo_state_def map_find_def)
  have b: "(300 :: ptr) \<noteq> nullptr" by (simp add: nullptr_def)
  have c: "heap demo_state 300 = None" by (simp add: demo_state_def)
  have d: "fst (ma_sound_init_from_file demo_engine ''missing.wav'') \<noteq> MA_SUCCESS"
    by (simp add: MA_SUCCESS_def)
  show ?thesis
    using load_failure_leaves_registry [OF a b c d] a b c d
    by (simp add: demo_events)
qed

subsection \<open>Play\<close>

text \<open>
  Claim C3. For an entry that is present and playing, \<open>SndPlaySound\<close> first stops the
  sound and rewinds it to frame 0, then sets the looping flag and starts it again: the
  restarted playback begins at frame 0, and there is still one playback instance of the
  entry.

  The calls are, in this order, \<open>ma_sound_stop\<close>, \<open>ma_sound_seek_to_pcm_frame\<close> to
  frame 0, \<open>ma_sound_set_looping\<close> and one \<open>ma_sound_start\<close>, all on the entry's own
  object. The object handed to \<open>ma_sound_start\<close> has its cursor on frame 0 (for an
  engine whose seek puts the cursor where asked and whose looping flag leaves it
  there). Nothing is allocated: the registry and every other object are unchanged.
\<close>

theorem play_while_playing_restarts_at_frame_0:
  assumes present: "map_find (g_loadedSounds st) soundId = Some pSound"
      and live: "sound_at st pSound = Some s"
      and playing: "ma_sound_is_playing ma s"
      and seek: "seek_takes_effect ma" and looping: "set_looping_keeps_position ma"
  shows "\<exists>st' s3.
           SndPlaySound ma (Some soundId) loop st = Some st'
         \<and> actions (events st') = actions (events st)
              @ [Call_ma_sound_stop pSound, Call_ma_sound_seek_to_pcm_frame pSound 0,
                 Call_ma_sound_set_looping pSound loop, Call_ma_sound_start pSound]
         \<and> s3 = ma_sound_set_looping ma
                  (snd (ma_sound_seek_to_pcm_frame ma (snd (ma_sound_stop ma s)) 0)) loop
         \<and> ma_sound_get_cursor_in_pcm_frames ma s3 = 0
         \<and> sound_at st' pSound = Some (snd (ma_sound_start ma s3))
         \<and> g_loadedSounds st' = g_loadedSounds st
         \<and> dom (heap st') = dom (heap st)
         \<and> (\<forall>q. q \<noteq> pSound \<longrightarrow> heap st' q = heap st q)"
proof -
  have nn: "pSound \<noteq> nullptr" using live by (rule sound_at_not_null)
  have c: "ma_sound_get_cursor_in_pcm_frames ma (ma_sound_set_looping ma
             (snd (ma_sound_seek_to_pcm_frame ma (snd (ma_sound_stop ma s)) 0)) loop) = 0"
    using seek looping by (simp add: seek_takes_effect_def set_looping_keeps_position_def)
  have d: "pSound \<in> dom (heap st)"
    using live nn by (auto simp: sound_at_def)
  then have d': "insert pSound (dom (heap st)) = dom (heap st)" by auto
  show ?thesis
    using SndPlaySound_playing [OF present live playing, of loop] nn c d'
    by simp
qed

theorem play_while_playing_restarts_at_frame_0_witness:
  "map_find (g_loadedSounds demo_state) ''explosion'' = Some 100
   \<and> sound_at demo_state 100 = Some ((decoded ''a.wav'')\<lparr>d_playing := True, d_frame := 5\<rparr>)
   \<and> ma_sound_is_playing demo_engine ((decoded ''a.wav'')\<lparr>d_playing := True, d_frame := 5\<rparr>)
   \<and> seek_takes_effect demo_engine \<and> set_looping_keeps_position demo_engine
   \<and> (\<exists>st'. SndPlaySound demo_engine (Some ''explosion'') True demo_state = Some st'
         \<and> actions (events st') =
              [Call_ma_sound_stop 100, Call_ma_sound_seek_to_pcm_frame 100 0,
               Call_ma_sound_set_looping 100 True, Call_ma_sound_start 100]
         \<and> sound_at st' 100 =
              Some ((decoded ''a.wav'')\<lparr>d_playing := True, d_frame := 0, d_looping := True\<rparr>)
         \<and> g_loadedSounds st' = g_loadedSounds demo_state
         \<and> dom (heap st') = dom (heap demo_state)
         \<and> (\<forall>q. q \<noteq> 100 \<longrightarrow> heap st' q = heap demo_state q))"
proof -
  have p: "ma_sound_is_playing demo_engine ((decoded ''a.wav'')\<lparr>d_playing := True, d_frame := 5\<rparr>)"
    by simp
  show ?thesis
    using play_while_playing_restarts_at_frame_0 [OF demo_explosion demo_explosion_at p
        demo_engine_contract(5) demo_engine_contract(6), of True]
    by (simp add: demo_explosion demo_explosion_at demo_engine_contract demo_events decoded_def)
qed

subsection \<open>Stop\<close>

text \<open>
  Against claim C2 as stated (\<open>StopSound\<close> on a playing sound always leaves the
  position at frame 0): \<open>StopSound\<close> rewinds only in the branch where
  \<open>ma_sound_stop\<close> returned \<open>MA_SUCCESS\<close>. With an engine that rejects the stop, the
  sound \<open>explosion\<close>, playing at frame 5, is still playing at frame 5 afterwards, and
  an error is reported.
\<close>

theorem stop_sound_rejected_counterexample:
  "map_find (g_loadedSounds demo_state) ''explosion'' = Some 100
   \<and> sound_is_playing rejecting_engine 100 demo_state = Some True
   \<and> sound_cursor rejecting_engine 100 demo_state = Some 5
   \<and> StopSound rejecting_engine (Some ''explosion'') demo_state =
       Some (report ERROR ''Failed to stop sound with ID. Result:'' [Str ''explosion'', Res (- 3)]
              (emit (Call_ma_sound_stop 100)
                (store 100 ((decoded ''a.wav'')\<lparr>d_playing := True, d_frame := 5\<rparr>) demo_state)))
   \<and> sound_is_playing rejecting_engine 100
        (report ERROR ''Failed to stop sound with ID. Result:'' [Str ''explosion'', Res (- 3)]
          (emit (Call_ma_sound_stop 100)
            (store 100 ((decoded ''a.wav'')\<lparr>d_playing := True, d_frame := 5\<rparr>) demo_state))) = Some True
   \<and> sound_cursor rejecting_engine 100
        (report ERROR ''Failed to stop sound with ID. Result:'' [Str ''explosion'', Res (- 3)]
          (emit (Call_ma_sound_stop 100)
            (store 100 ((decoded ''a.wav'')\<lparr>d_playing := True, d_frame := 5\<rparr>) demo_state))) = Some 5"
  by (simp add: demo_explosion demo_explosion_at StopSound_def sound_is_playing_def sound_cursor_def
      sound_stop_def with_result_Some MA_SUCCESS_def nullptr_def decoded_def)

text \<open>
  Claim C2, amended. For an entry that is present: \<open>StopSound\<close> on a playing sound
  whose stop the engine accepts stops it and leaves the position at frame 0 (one stop,
  then one seek to frame 0); when the engine rejects the stop, the error is reported
  and no seek is made; \<open>StopSound\<close> on a sound that is not playing calls nothing and
  changes nothing: it only prints that no action is needed, which is not an error.
\<close>

theorem stop_sound_rewinds_when_accepted:
  assumes present: "map_find (g_loadedSounds st) soundId = Some pSound"
      and live: "sound_at st pSound = Some s"
      and seek: "seek_takes_effect ma" and stop_eff: "stop_takes_effect ma"
  shows "(ma_sound_is_playing ma s \<and> fst (ma_sound_stop ma s) = MA_SUCCESS \<longrightarrow>
            (\<exists>st'. StopSound ma (Some soundId) st = Some st'
                 \<and> sound_cursor ma pSound st' = Some 0
                 \<and> sound_is_playing ma pSound st' = Some False
                 \<and> actions (events st') = actions (events st)
                      @ [Call_ma_sound_stop pSound, Call_ma_sound_seek_to_pcm_frame pSound 0]
                 \<and> g_loadedSounds st' = g_loadedSounds st))
       \<and> (ma_sound_is_playing ma s \<and> fst (ma_sound_stop ma s) \<noteq> MA_SUCCESS \<longrightarrow>
            StopSound ma (Some soundId) st =
              Some (report ERROR ''Failed to stop sound with ID. Result:''
                     [Str soundId, Res (fst (ma_sound_stop ma s))]
                     (emit (Call_ma_sound_stop pSound) (store pSound (snd (ma_sound_stop ma s)) st))))
       \<and> (\<not> ma_sound_is_playing ma s \<longrightarrow>
            StopSound ma (Some soundId) st =
              Some (report INFO ''Sound ID is not playing. No action needed.'' [Str soundId] st))"
proof (intro conjI impI)
  assume a: "ma_sound_is_playing ma s \<and> fst (ma_sound_stop ma s) = MA_SUCCESS"
  have nn: "pSound \<noteq> nullptr" using live by (rule sound_at_not_null)
  let ?s1 = "snd (ma_sound_stop ma s)"
  let ?s2 = "snd (ma_sound_seek_to_pcm_frame ma ?s1 0)"
  have c: "ma_sound_get_cursor_in_pcm_frames ma ?s2 = 0"
    using seek by (simp add: seek_takes_effect_def)
  have "\<not> ma_sound_is_playing ma ?s1"
    using stop_eff a by (simp add: stop_takes_effect_def)
  then have np: "\<not> ma_sound_is_playing ma ?s2"
    using seek by (simp add: seek_takes_effect_def)
  show "\<exists>st'. StopSound ma (Some soundId) st = Some st'
                 \<and> sound_cursor ma pSound st' = Some 0
                 \<and> sound_is_playing ma pSound st' = Some False
                 \<and> actions (events st') = actions (events st)
                      @ [Call_ma_sound_stop pSound, Call_ma_sound_seek_to_pcm_frame pSound 0]
                 \<and> g_loadedSounds st' = g_loadedSounds st"
    using StopSound_accepted [OF present live, of ma] a nn c np
    by (simp add: sound_cursor_def sound_is_playing_def)
next
  assume "ma_sound_is_playing ma s \<and> fst (ma_sound_stop ma s) \<noteq> MA_SUCCESS"
  then show "StopSound ma (Some soundId) st =
              Some (report ERROR ''Failed to stop sound with ID. Result:''
                     [Str soundId, Res (fst (ma_sound_stop ma s))]
                     (emit (Call_ma_sound_stop pSound) (store pSound (snd (ma_sound_stop ma s)) st)))"
    using StopSound_rejected [OF present live, of ma] by simp
next
  assume "\<not> ma_sound_is_playing ma s"
  then show "StopSound ma (Some soundId) st =
              Some (report INFO ''Sound ID is not playing. No action needed.'' [Str soundId] st)"
    using StopSound_not_playing [OF present live] by simp
qed

theorem stop_sound_rewinds_when_accepted_witness:
  "map_find (g_loadedSounds demo_state) ''explosion'' = Some 100
   \<and> sound_at demo_state 100 = Some ((decoded ''a.wav'')\<lparr>d_playing := True, d_frame := 5\<rparr>)
   \<and> seek_takes_effect demo_engine \<and> stop_takes_effect demo_engine
   \<and> ma_sound_is_playing demo_engine ((decoded ''a.wav'')\<lparr>d_playing := True, d_frame := 5\<rparr>)
   \<and> fst (ma_sound_stop demo_engine ((decoded ''a.wav'')\<lparr>d_playing := True, d_frame := 5\<rparr>)) = MA_SUCCESS
   \<and> (\<exists>st'. StopSound demo_engine (Some ''explosion'') demo_state = Some st'
          \<and> sound_cursor demo_engine 100 st' = Some 0
          \<and> sound_is_playing demo_engine 100 st' = Some False)
   \<and> ma_sound_is_playing rejecting_engine ((decoded ''a.wav'')\<lparr>d_playing := True, d_frame := 5\<rparr>)
   \<and> fst (ma_sound_stop rejecting_engine ((decoded ''a.wav'')\<lparr>d_playing := True, d_frame := 5\<rparr>)) \<noteq> MA_SUCCESS
   \<and> map_option events (StopSound rejecting_engine (Some ''explosion'') demo_state) =
       Some [Call_ma_sound_stop 100,
             Report ERROR ''Failed to stop sound with ID. Result:'' [Str ''explosion'', Res (- 3)]]
   \<and> map_find (g_loadedSounds demo_state) ''music'' = Some 200
   \<and> sound_at demo_state 200 = Some ((decoded ''b.ogg'')\<lparr>d_frame := 7\<rparr>)
   \<and> \<not> ma_sound_is_playing demo_engine ((decoded ''b.ogg'')\<lparr>d_frame := 7\<rparr>)
   \<and> StopSound demo_engine (Some ''music'') demo_state =
       Some (report INFO ''Sound ID is not playing. No action needed.'' [Str ''music''] demo_state)"
  using stop_sound_rewinds_when_accepted [OF demo_explosion demo_explosion_at
          demo_engine_contract(5) demo_engine_contract(3)]
        stop_sound_rewinds_when_accepted [OF demo_explosion demo_explosion_at
          rejecting_engine_contract(1) rejecting_engine_contract(2)]
        stop_sound_rewinds_when_accepted [OF demo_music demo_music_at
          demo_engine_contract(5) demo_engine_contract(3)]
  by (simp add: demo_explosion demo_explosion_at demo_music demo_music_at demo_engine_contract
      rejecting_engine_contract demo_events MA_SUCCESS_def decoded_def) blast

subsection \<open>Pause and resume\<close>

text \<open>
  Against claim C1 as stated (\<open>PauseSound\<close> stops playback, and after Pause followed by
  Resume the position is at least the position at the moment of Pause): both are the
  engine's doing, not \<open>PauseSound\<close>'s. With the engine that rejects the stop,
  \<open>explosion\<close> is still playing after \<open>PauseSound\<close>. With the engine whose stop
  rewinds, \<open>explosion\<close>, at frame 5 at the moment of Pause, is at frame 0 after Pause
  followed by Resume.
\<close>

theorem pause_resume_position_counterexample:
  "sound_is_playing rejecting_engine 100 demo_state = Some True
   \<and> PauseSound rejecting_engine (Some ''explosion'') demo_state =
       Some (report ERROR ''Failed to pause sound with ID. Result:'' [Str ''explosion'', Res (- 3)]
              (emit (Call_ma_sound_stop 100)
                (store 100 ((decoded ''a.wav'')\<lparr>d_playing := True, d_frame := 5\<rparr>) demo_state)))
   \<and> sound_is_playing rejecting_engine 100
        (report ERROR ''Failed to pause sound with ID. Result:'' [Str ''explosion'', Res (- 3)]
          (emit (Call_ma_sound_stop 100)
            (store 100 ((decoded ''a.wav'')\<lparr>d_playing := True, d_frame := 5\<rparr>) demo_state)))
       = Some True
   \<and> sound_cursor rewinding_engine 100 demo_state = Some 5
   \<and> PauseSound rewinding_engine (Some ''explosion'') demo_state =
       Some (report INFO ''Paused sound ID'' [Str ''explosion'']
              (emit (Call_ma_sound_stop 100)
                (store 100 ((decoded ''a.wav'')\<lparr>d_playing := False, d_frame := 0\<rparr>) demo_state)))
   \<and> ResumeSound rewinding_engine (Some ''explosion'')
         (report INFO ''Paused sound ID'' [Str ''explosion'']
           (emit (Call_ma_sound_stop 100)
             (store 100 ((decoded ''a.wav'')\<lparr>d_playing := False, d_frame := 0\<rparr>) demo_state))) =
       Some (report INFO ''Resumed sound ID'' [Str ''explosion'']
              (emit (Call_ma_sound_start 100)
                (store 100 ((decoded ''a.wav'')\<lparr>d_playing := True, d_frame := 0\<rparr>)
                  (report INFO ''Paused sound ID'' [Str ''explosion'']
                    (emit (Call_ma_sound_stop 100)
                      (store 100 ((decoded ''a.wav'')\<lparr>d_playing := False, d_frame := 0\<rparr>)
                        demo_state))))))
   \<and> sound_cursor rewinding_engine 100
        (report INFO ''Resumed sound ID'' [Str ''explosion'']
          (emit (Call_ma_sound_start 100)
            (store 100 ((decoded ''a.wav'')\<lparr>d_playing := True, d_frame := 0\<rparr>)
              (report INFO ''Paused sound ID'' [Str ''explosion'']
                (emit (Call_ma_sound_stop 100)
                  (store 100 ((decoded ''a.wav'')\<lparr>d_playing := False, d_frame := 0\<rparr>)
                    demo_state))))))
       = Some 0"
proof -
  have n: "(100 :: ptr) \<noteq> nullptr" by (simp add: nullptr_def)
  have rejected: "PauseSound rejecting_engine (Some ''explosion'') demo_state =
       Some (report ERROR ''Failed to pause sound with ID. Result:'' [Str ''explosion'', Res (- 3)]
              (emit (Call_ma_sound_stop 100)
                (store 100 ((decoded ''a.wav'')\<lparr>d_playing := True, d_frame := 5\<rparr>) demo_state)))"
    using PauseSound_present [OF demo_explosion demo_explosion_at, of rejecting_engine]
    by (simp add: MA_SUCCESS_def)
  have paused: "PauseSound rewinding_engine (Some ''explosion'') demo_state =
       Some (report INFO ''Paused sound ID'' [Str ''explosion'']
              (emit (Call_ma_sound_stop 100)
                (store 100 ((decoded ''a.wav'')\<lparr>d_playing := False, d_frame := 0\<rparr>) demo_state)))"
    using PauseSound_present [OF demo_explosion demo_explosion_at, of rewinding_engine]
    by (simp add: decoded_def)
  let ?st1 = "report INFO ''Paused sound ID'' [Str ''explosion'']
              (emit (Call_ma_sound_stop 100)
                (store 100 ((decoded ''a.wav'')\<lparr>d_playing := False, d_frame := 0\<rparr>) demo_state))"
  have present1: "map_find (g_loadedSounds ?st1) ''explosion'' = Some 100"
    by (simp add: demo_explosion)
  have live1: "sound_at ?st1 100 = Some ((decoded ''a.wav'')\<lparr>d_playing := False, d_frame := 0\<rparr>)"
    using n by simp
  have resumed: "ResumeSound rewinding_engine (Some ''explosion'') ?st1 =
       Some (report INFO ''Resumed sound ID'' [Str ''explosion'']
              (emit (Call_ma_sound_start 100)
                (store 100 ((decoded ''a.wav'')\<lparr>d_playing := True, d_frame := 0\<rparr>) ?st1)))"
    using ResumeSound_present [OF present1 live1, of rewinding_engine]
    by (simp add: decoded_def)
  show ?thesis
    using n rejected paused resumed
    by (simp add: sound_is_playing_def sound_cursor_def demo_explosion_at decoded_def)
qed

text \<open>
  Claim C1, amended. For an entry that is present, \<open>PauseSound\<close> asks the engine to stop
  the sound and \<open>ResumeSound\<close> afterwards asks it to start the sound, each with one
  engine call and no seek: \<open>PauseSound\<close> and \<open>ResumeSound\<close> themselves never reset the
  position (unlike \<open>StopSound\<close>, which seeks to frame 0 after an accepted stop), and
  the sound after Pause followed by Resume is what the engine's stop and then its start
  make of it. The sound is stopped after a Pause, and playing after a Resume, that the
  engine accepts; for an engine whose stop and start do not move the cursor backwards,
  the position after Pause followed by Resume is greater than or equal to the position
  at the moment of Pause.
\<close>

theorem pause_then_resume_make_no_seek:
  assumes present: "map_find (g_loadedSounds st) soundId = Some pSound"
      and live: "sound_at st pSound = Some s"
  shows "\<exists>st1 st2.
           PauseSound ma (Some soundId) st = Some st1
         \<and> sound_at st1 pSound = Some (snd (ma_sound_stop ma s))
         \<and> actions (events st1) = actions (events st) @ [Call_ma_sound_stop pSound]
         \<and> ResumeSound ma (Some soundId) st1 = Some st2
         \<and> sound_at st2 pSound = Some (snd (ma_sound_start ma (snd (ma_sound_stop ma s))))
         \<and> actions (events st2) = actions (events st1) @ [Call_ma_sound_start pSound]
         \<and> g_loadedSounds st2 = g_loadedSounds st
         \<and> (\<forall>q. q \<noteq> pSound \<longrightarrow> heap st2 q = heap st q)
         \<and> (stop_takes_effect ma \<and> fst (ma_sound_stop ma s) = MA_SUCCESS
              \<longrightarrow> sound_is_playing ma pSound st1 = Some False)
         \<and> (start_takes_effect ma \<and> fst (ma_sound_start ma (snd (ma_sound_stop ma s))) = MA_SUCCESS
              \<longrightarrow> sound_is_playing ma pSound st2 = Some True)
         \<and> (stop_keeps_position ma \<and> start_keeps_position ma \<longrightarrow>
              (\<exists>c0 c1 c2. sound_cursor ma pSound st = Some c0
                 \<and> sound_cursor ma pSound st1 = Some c1
                 \<and> sound_cursor ma pSound st2 = Some c2
                 \<and> c0 \<le> c1 \<and> c1 \<le> c2 \<and> c0 \<le> c2))"
proof -
  define s1 where "s1 = snd (ma_sound_stop ma s)"
  define s2 where "s2 = snd (ma_sound_start ma s1)"
  define st1 where "st1 = (if fst (ma_sound_stop ma s) \<noteq> MA_SUCCESS
      then report ERROR ''Failed to pause sound with ID. Result:'' [Str soundId, Res (fst (ma_sound_stop ma s))]
      else report INFO ''Paused sound ID'' [Str soundId]) (emit (Call_ma_sound_stop pSound) (store pSound s1 st))"
  define st2 where "st2 = (if fst (ma_sound_start ma s1) \<noteq> MA_SUCCESS
      then report ERROR ''Failed to resume sound with ID. Result:'' [Str soundId, Res (fst (ma_sound_start ma s1))]
      else report INFO ''Resumed sound ID'' [Str soundId]) (emit (Call_ma_sound_start pSound) (store pSound s2 st1))"
  have nn: "pSound \<noteq> nullptr" using live by (rule sound_at_not_null)
  have pause: "PauseSound ma (Some soundId) st = Some st1"
    using PauseSound_present [OF present live, of ma] by (simp add: st1_def s1_def)
  have at1: "sound_at st1 pSound = Some s1" and reg1: "g_loadedSounds st1 = g_loadedSounds st"
    using nn by (simp_all add: st1_def)
  have present1: "map_find (g_loadedSounds st1) soundId = Some pSound"
    using present reg1 by simp
  have resume: "ResumeSound ma (Some soundId) st1 = Some st2"
    using ResumeSound_present [OF present1 at1, of ma] by (simp add: st2_def s2_def)
  have at2: "sound_at st2 pSound = Some s2" and reg2: "g_loadedSounds st2 = g_loadedSounds st"
    using nn reg1 by (simp_all add: st2_def)
  have ev1: "actions (events st1) = actions (events st) @ [Call_ma_sound_stop pSound]"
    by (simp add: st1_def)
  have ev2: "actions (events st2) = actions (events st1) @ [Call_ma_sound_start pSound]"
    by (simp add: st2_def)
  have others: "\<forall>q. q \<noteq> pSound \<longrightarrow> heap st2 q = heap st q"
    by (simp add: st2_def st1_def)
  have p1: "stop_takes_effect ma \<and> fst (ma_sound_stop ma s) = MA_SUCCESS
              \<longrightarrow> sound_is_playing ma pSound st1 = Some False"
    using at1 by (simp add: stop_takes_effect_def sound_is_playing_def s1_def)
  have p2: "start_takes_effect ma \<and> fst (ma_sound_start ma (snd (ma_sound_stop ma s))) = MA_SUCCESS
              \<longrightarrow> sound_is_playing ma pSound st2 = Some True"
    using at2 by (simp add: start_takes_effect_def sound_is_playing_def s2_def s1_def)
  have pos: "stop_keeps_position ma \<and> start_keeps_position ma \<longrightarrow>
              (\<exists>c0 c1 c2. sound_cursor ma pSound st = Some c0
                 \<and> sound_cursor ma pSound st1 = Some c1
                 \<and> sound_cursor ma pSound st2 = Some c2
                 \<and> c0 \<le> c1 \<and> c1 \<le> c2 \<and> c0 \<le> c2)"
  proof
    assume k: "stop_keeps_position ma \<and> start_keeps_position ma"
    have c01: "ma_sound_get_cursor_in_pcm_frames ma s \<le> ma_sound_get_cursor_in_pcm_frames ma s1"
      using k by (simp add: stop_keeps_position_def s1_def)
    have c12: "ma_sound_get_cursor_in_pcm_frames ma s1 \<le> ma_sound_get_cursor_in_pcm_frames ma s2"
      using k by (simp add: start_keeps_position_def s2_def)
    from c01 c12 have c02: "ma_sound_get_cursor_in_pcm_frames ma s \<le> ma_sound_get_cursor_in_pcm_frames ma s2"
      by (rule order_trans)
    show "\<exists>c0 c1 c2. sound_cursor ma pSound st = Some c0
                 \<and> sound_cursor ma pSound st1 = Some c1
                 \<and> sound_cursor ma pSound st2 = Some c2
                 \<and> c0 \<le> c1 \<and> c1 \<le> c2 \<and> c0 \<le> c2"
      using live at1 at2 c01 c12 c02 by (simp add: sound_cursor_def)
  qed
  have a1: "sound_at st1 pSound = Some (snd (ma_sound_stop ma s))"
    using at1 by (simp add: s1_def)
  have a2: "sound_at st2 pSound = Some (snd (ma_sound_start ma (snd (ma_sound_stop ma s))))"
    using at2 by (simp add: s2_def s1_def)
  show ?thesis
    using pause a1 ev1 resume a2 ev2 reg2 others p1 p2 pos
    by (intro exI [of _ st1] exI [of _ st2] conjI)
qed

theorem pause_then_resume_make_no_seek_witness:
  "map_find (g_loadedSounds demo_state) ''explosion'' = Some 100
   \<and> sound_at demo_state 100 = Some ((decoded ''a.wav'')\<lparr>d_playing := True, d_frame := 5\<rparr>)
   \<and> stop_takes_effect demo_engine
   \<and> fst (ma_sound_stop demo_engine ((decoded ''a.wav'')\<lparr>d_playing := True, d_frame := 5\<rparr>)) = MA_SUCCESS
   \<and> start_takes_effect demo_engine
   \<and> fst (ma_sound_start demo_engine
            (snd (ma_sound_stop demo_engine ((decoded ''a.wav'')\<lparr>d_playing := True, d_frame := 5\<rparr>))))
       = MA_SUCCESS
   \<and> stop_keeps_position demo_engine \<and> start_keeps_position demo_engine
   \<and> (\<exists>st1 st2.
         PauseSound demo_engine (Some ''explosion'') demo_state = Some st1
       \<and> sound_at st1 100 = Some ((decoded ''a.wav'')\<lparr>d_playing := False, d_frame := 5\<rparr>)
       \<and> actions (events st1) = [Call_ma_sound_stop 100]
       \<and> ResumeSound demo_engine (Some ''explosion'') st1 = Some st2
       \<and> sound_at st2 100 = Some ((decoded ''a.wav'')\<lparr>d_playing := True, d_frame := 5\<rparr>)
       \<and> actions (events st2) = [Call_ma_sound_stop 100, Call_ma_sound_start 100]
       \<and> sound_is_playing demo_engine 100 st1 = Some False
       \<and> sound_is_playing demo_engine 100 st2 = Some True
       \<and> sound_cursor demo_engine 100 st2 = Some 5)"
proof -
  from pause_then_resume_make_no_seek [OF demo_explosion demo_explosion_at, of demo_engine]
  obtain st1 st2 where r:
    "PauseSound demo_engine (Some ''explosion'') demo_state = Some st1"
    "sound_at st1 100 =
       Some (snd (ma_sound_stop demo_engine ((decoded ''a.wav'')\<lparr>d_playing := True, d_frame := 5\<rparr>)))"
    "actions (events st1) = actions (events demo_state) @ [Call_ma_sound_stop 100]"
    "ResumeSound demo_engine (Some ''explosion'') st1 = Some st2"
    "sound_at st2 100 =
       Some (snd (ma_sound_start demo_engine
         (snd (ma_sound_stop demo_engine ((decoded ''a.wav'')\<lparr>d_playing := True, d_frame := 5\<rparr>)))))"
    "actions (events st2) = actions (events st1) @ [Call_ma_sound_start 100]"
    by blast
  have "PauseSound demo_engine (Some ''explosion'') demo_state = Some st1
       \<and> sound_at st1 100 = Some ((decoded ''a.wav'')\<lparr>d_playing := False, d_frame := 5\<rparr>)
       \<and> actions (events st1) = [Call_ma_sound_stop 100]
       \<and> ResumeSound demo_engine (Some ''explosion'') st1 = Some st2
       \<and> sound_at st2 100 = Some ((decoded ''a.wav'')\<lparr>d_playing := True, d_frame := 5\<rparr>)
       \<and> actions (events st2) = [Call_ma_sound_stop 100, Call_ma_sound_start 100]
       \<and> sound_is_playing demo_engine 100 st1 = Some False
       \<and> sound_is_playing demo_engine 100 st2 = Some True
       \<and> sound_cursor demo_engine 100 st2 = Some 5"
    using r by (simp add: demo_events sound_is_playing_def sound_cursor_def decoded_def)
  then show ?thesis
    using demo_explosion demo_explosion_at demo_engine_contract by (simp add: MA_SUCCESS_def)
qed

text \<open>
  Against claim C10 as stated (\<open>PauseSound\<close> on a sound that is not playing reports
  success): what \<open>PauseSound\<close> reports is decided by the result of \<open>ma_sound_stop\<close>.
  With an engine that rejects the stop, pausing \<open>music\<close>, which is not playing, calls
  \<open>ma_sound_stop\<close> and reports an error.
\<close>

theorem pause_rejected_counterexample:
  "map_find (g_loadedSounds demo_state) ''music'' = Some 200
   \<and> sound_is_playing rejecting_engine 200 demo_state = Some False
   \<and> PauseSound rejecting_engine (Some ''music'') demo_state =
       Some (report ERROR ''Failed to pause sound with ID. Result:'' [Str ''music'', Res (- 3)]
              (emit (Call_ma_sound_stop 200)
                (store 200 ((decoded ''b.ogg'')\<lparr>d_frame := 7\<rparr>) demo_state)))"
  by (simp add: demo_music demo_music_at PauseSound_def sound_is_playing_def
      sound_stop_def with_result_Some MA_SUCCESS_def decoded_def)

text \<open>
  Claim C10, amended. For an entry that is present, \<open>PauseSound\<close> calls the engine's
  stop whether or not the sound is playing, and reports what the engine answers:
  success when \<open>ma_sound_stop\<close> returns \<open>MA_SUCCESS\<close> (also on a sound that is not
  playing), an error otherwise. \<open>StopSound\<close> asks first whether the sound is playing,
  and on a sound that is not playing it calls nothing and changes nothing.
\<close>

theorem pause_calls_stop_unconditionally:
  assumes present: "map_find (g_loadedSounds st) soundId = Some pSound"
      and live: "sound_at st pSound = Some s"
  shows "PauseSound ma (Some soundId) st =
           Some ((if fst (ma_sound_stop ma s) \<noteq> MA_SUCCESS
                  then report ERROR ''Failed to pause sound with ID. Result:''
                         [Str soundId, Res (fst (ma_sound_stop ma s))]
                  else report INFO ''Paused sound ID'' [Str soundId])
                 (emit (Call_ma_sound_stop pSound) (store pSound (snd (ma_sound_stop ma s)) st)))
       \<and> (\<not> ma_sound_is_playing ma s \<and> fst (ma_sound_stop ma s) = MA_SUCCESS \<longrightarrow>
            PauseSound ma (Some soundId) st =
              Some (report INFO ''Paused sound ID'' [Str soundId]
                     (emit (Call_ma_sound_stop pSound) (store pSound (snd (ma_sound_stop ma s)) st))))
       \<and> (\<not> ma_sound_is_playing ma s \<longrightarrow>
            StopSound ma (Some soundId) st =
              Some (report INFO ''Sound ID is not playing. No action needed.'' [Str soundId] st))"
  using PauseSound_present [OF present live, of ma] StopSound_not_playing [OF present live, of ma]
  by simp

theorem pause_calls_stop_unconditionally_witness:
  "map_find (g_loadedSounds demo_state) ''music'' = Some 200
   \<and> sound_at demo_state 200 = Some ((decoded ''b.ogg'')\<lparr>d_frame := 7\<rparr>)
   \<and> \<not> ma_sound_is_playing demo_engine ((decoded ''b.ogg'')\<lparr>d_frame := 7\<rparr>)
   \<and> fst (ma_sound_stop demo_engine ((decoded ''b.ogg'')\<lparr>d_frame := 7\<rparr>)) = MA_SUCCESS
   \<and> map_option events (PauseSound demo_engine (Some ''music'') demo_state) =
       Some [Call_ma_sound_stop 200, Report INFO ''Paused sound ID'' [Str ''music'']]
   \<and> map_option events (StopSound demo_engine (Some ''music'') demo_state) =
       Some [Report INFO ''Sound ID is not playing. No action needed.'' [Str ''music'']]"
  using pause_calls_stop_unconditionally [OF demo_music demo_music_at, of demo_engine]
  by (simp add: demo_music demo_music_at demo_events decoded_def)

subsection \<open>Volume, pan and pitch\<close>

text \<open>
  Against claim C9 as stated (every input value is clamped): the setters only compare,
  and every comparison with a NaN is false, so \<open>std::clamp\<close> returns a NaN as it is and
  \<open>pitch <= 0.0f\<close> does not hold of it. A NaN volume, pan or pitch is passed to the
  engine unchanged; the volume passed is then not in [0, 1].
\<close>

theorem nan_is_not_clamped_counterexample:
  "map_option events (SetSoundVolume demo_engine (Some ''explosion'') NaN demo_state)
     = Some [Call_ma_sound_set_volume 100 NaN,
             Report INFO ''Volume for sound ID set to'' [Str ''explosion'', Num NaN]]
   \<and> \<not> float_le (Finite 0) NaN \<and> \<not> float_le NaN (Finite 1)
   \<and> map_option events (SetSoundPan demo_engine (Some ''explosion'') NaN demo_state)
     = Some [Call_ma_sound_set_pan 100 NaN,
             Report INFO ''Pan for sound ID set to'' [Str ''explosion'', Num NaN]]
   \<and> map_option events (SetSoundPitch demo_engine (Some ''explosion'') NaN demo_state)
     = Some [Call_ma_sound_set_pitch 100 NaN,
             Report INFO ''Pitch for sound ID set to'' [Str ''explosion'', Num NaN]]"
  by (simp add: SetSoundVolume_def SetSoundPan_def SetSoundPitch_def call_defs demo_explosion
      without_result_Some demo_explosion_at std_clamp_def floor_pitch_def demo_events)

text \<open>
  Claim C9, amended. For an entry that is present and every input that is not a NaN:
  \<open>SetSoundVolume\<close> passes the volume clamped to [0, 1] to the engine (1.5 becomes 1,
  -0.2 becomes 0, a volume in [0, 1] is passed as it is), \<open>SetSoundPan\<close> passes the pan
  clamped to [-1, 1] (-2 becomes -1, a pan in [-1, 1] is passed as it is), and
  \<open>SetSoundPitch\<close> replaces every pitch that is 0 or less by the float \<open>0.001f\<close> and
  passes every other pitch as it is, so the pitch passed is greater than 0. A NaN is
  passed to the engine as it is by all three; for every input, NaN included, the pitch
  passed is not 0 or less.
\<close>

theorem setters_clamp:
  assumes "map_find (g_loadedSounds st) soundId = Some pSound"
      and "sound_at st pSound = Some s"
  shows "SetSoundVolume ma (Some soundId) v st =
           Some (report INFO ''Volume for sound ID set to''
                   [Str soundId, Num (std_clamp v (Finite 0) (Finite 1))]
                  (emit (Call_ma_sound_set_volume pSound (std_clamp v (Finite 0) (Finite 1)))
                    (store pSound (ma_sound_set_volume ma s (std_clamp v (Finite 0) (Finite 1))) st)))
       \<and> (v \<noteq> NaN \<longrightarrow> float_le (Finite 0) (std_clamp v (Finite 0) (Finite 1))
                        \<and> float_le (std_clamp v (Finite 0) (Finite 1)) (Finite 1))
       \<and> (float_le (Finite 0) v \<and> float_le v (Finite 1) \<longrightarrow> std_clamp v (Finite 0) (Finite 1) = v)
       \<and> std_clamp (Finite (3 / 2)) (Finite 0) (Finite 1) = Finite 1
       \<and> std_clamp (Finite (- 13421773 / 67108864)) (Finite 0) (Finite 1) = Finite 0
       \<and> std_clamp NaN (Finite 0) (Finite 1) = NaN
       \<and> SetSoundPan ma (Some soundId) v st =
           Some (report INFO ''Pan for sound ID set to''
                   [Str soundId, Num (std_clamp v (Finite (- 1)) (Finite 1))]
                  (emit (Call_ma_sound_set_pan pSound (std_clamp v (Finite (- 1)) (Finite 1)))
                    (store pSound (ma_sound_set_pan ma s (std_clamp v (Finite (- 1)) (Finite 1))) st)))
       \<and> (v \<noteq> NaN \<longrightarrow> float_le (Finite (- 1)) (std_clamp v (Finite (- 1)) (Finite 1))
                        \<and> float_le (std_clamp v (Finite (- 1)) (Finite 1)) (Finite 1))
       \<and> (float_le (Finite (- 1)) v \<and> float_le v (Finite 1)
            \<longrightarrow> std_clamp v (Finite (- 1)) (Finite 1) = v)
       \<and> std_clamp (Finite (- 2)) (Finite (- 1)) (Finite 1) = Finite (- 1)
       \<and> std_clamp NaN (Finite (- 1)) (Finite 1) = NaN
       \<and> SetSoundPitch ma (Some soundId) v st =
           Some (report INFO ''Pitch for sound ID set to'' [Str soundId, Num (floor_pitch v)]
                  (emit (Call_ma_sound_set_pitch pSound (floor_pitch v))
                    (store pSound (ma_sound_set_pitch ma s (floor_pitch v)) st)))
       \<and> (float_le v (Finite 0) \<longrightarrow> floor_pitch v = Finite (8589935 / 8589934592))
       \<and> (\<not> float_le v (Finite 0) \<longrightarrow> floor_pitch v = v)
       \<and> (v \<noteq> NaN \<longrightarrow> float_lt (Finite 0) (floor_pitch v))
       \<and> \<not> float_le (floor_pitch v) (Finite 0)
       \<and> floor_pitch NaN = NaN"
proof -
  have calls: "SetSoundVolume ma (Some soundId) v st =
           Some (report INFO ''Volume for sound ID set to''
                   [Str soundId, Num (std_clamp v (Finite 0) (Finite 1))]
                  (emit (Call_ma_sound_set_volume pSound (std_clamp v (Finite 0) (Finite 1)))
                    (store pSound (ma_sound_set_volume ma s (std_clamp v (Finite 0) (Finite 1))) st)))"
    "SetSoundPan ma (Some soundId) v st =
           Some (report INFO ''Pan for sound ID set to''
                   [Str soundId, Num (std_clamp v (Finite (- 1)) (Finite 1))]
                  (emit (Call_ma_sound_set_pan pSound (std_clamp v (Finite (- 1)) (Finite 1)))
                    (store pSound (ma_sound_set_pan ma s (std_clamp v (Finite (- 1)) (Finite 1))) st)))"
    "SetSoundPitch ma (Some soundId) v st =
           Some (report INFO ''Pitch for sound ID set to'' [Str soundId, Num (floor_pitch v)]
                  (emit (Call_ma_sound_set_pitch pSound (floor_pitch v))
                    (store pSound (ma_sound_set_pitch ma s (floor_pitch v)) st)))"
    using assms
    by (simp_all add: SetSoundVolume_def SetSoundPan_def SetSoundPitch_def call_defs
        without_result_Some)
  have ranges: "(v \<noteq> NaN \<longrightarrow> float_le (Finite 0) (std_clamp v (Finite 0) (Finite 1))
                        \<and> float_le (std_clamp v (Finite 0) (Finite 1)) (Finite 1))"
    "(float_le (Finite 0) v \<and> float_le v (Finite 1) \<longrightarrow> std_clamp v (Finite 0) (Finite 1) = v)"
    "(v \<noteq> NaN \<longrightarrow> float_le (Finite (- 1)) (std_clamp v (Finite (- 1)) (Finite 1))
                        \<and> float_le (std_clamp v (Finite (- 1)) (Finite 1)) (Finite 1))"
    "(float_le (Finite (- 1)) v \<and> float_le v (Finite 1)
            \<longrightarrow> std_clamp v (Finite (- 1)) (Finite 1) = v)"
    "(float_le v (Finite 0) \<longrightarrow> floor_pitch v = Finite (8589935 / 8589934592))"
    "(\<not> float_le v (Finite 0) \<longrightarrow> floor_pitch v = v)"
    "(v \<noteq> NaN \<longrightarrow> float_lt (Finite 0) (floor_pitch v))"
    "\<not> float_le (floor_pitch v) (Finite 0)"
    by (cases v, simp_all add: std_clamp_def floor_pitch_def)+
  have examples: "std_clamp (Finite (3 / 2)) (Finite 0) (Finite 1) = Finite 1"
    "std_clamp (Finite (- 13421773 / 67108864)) (Finite 0) (Finite 1) = Finite 0"
    "std_clamp NaN (Finite 0) (Finite 1) = NaN"
    "std_clamp (Finite (- 2)) (Finite (- 1)) (Finite 1) = Finite (- 1)"
    "std_clamp NaN (Finite (- 1)) (Finite 1) = NaN"
    "floor_pitch NaN = NaN"
    by (simp_all add: std_clamp_def floor_pitch_def)
  show ?thesis
    using calls ranges examples by (intro conjI)
qed

theorem setters_clamp_witness:
  "map_find (g_loadedSounds demo_state) ''explosion'' = Some 100
   \<and> sound_at demo_state 100 = Some ((decoded ''a.wav'')\<lparr>d_playing := True, d_frame := 5\<rparr>)
   \<and> Finite (3 / 2) \<noteq> NaN
   \<and> map_option events (SetSoundVolume demo_engine (Some ''explosion'') (Finite (3 / 2)) demo_state)
       = Some [Call_ma_sound_set_volume 100 (Finite 1),
               Report INFO ''Volume for sound ID set to'' [Str ''explosion'', Num (Finite 1)]]
   \<and> float_le (Finite 0) (Finite (1 / 2)) \<and> float_le (Finite (1 / 2)) (Finite 1)
   \<and> float_le (Finite (- 1)) (Finite (1 / 2))
   \<and> map_option events (SetSoundVolume demo_engine (Some ''explosion'') (Finite (1 / 2)) demo_state)
       = Some [Call_ma_sound_set_volume 100 (Finite (1 / 2)),
               Report INFO ''Volume for sound ID set to'' [Str ''explosion'', Num (Finite (1 / 2))]]
   \<and> map_option events (SetSoundPan demo_engine (Some ''explosion'') (Finite (- 2)) demo_state)
       = Some [Call_ma_sound_set_pan 100 (Finite (- 1)),
               Report INFO ''Pan for sound ID set to'' [Str ''explosion'', Num (Finite (- 1))]]
   \<and> float_le (Finite (- 4)) (Finite 0)
   \<and> map_option events (SetSoundPitch demo_engine (Some ''explosion'') (Finite (- 4)) demo_state)
       = Some [Call_ma_sound_set_pitch 100 (Finite (8589935 / 8589934592)),
               Report INFO ''Pitch for sound ID set to''
                 [Str ''explosion'', Num (Finite (8589935 / 8589934592))]]
   \<and> \<not> float_le (Finite 2) (Finite 0)
   \<and> map_option events (SetSoundPitch demo_engine (Some ''explosion'') (Finite 2) demo_state)
       = Some [Call_ma_sound_set_pitch 100 (Finite 2),
               Report INFO ''Pitch for sound ID set to'' [Str ''explosion'', Num (Finite 2)]]"
  using setters_clamp [OF demo_explosion demo_explosion_at, of demo_engine "Finite (3 / 2)"]
    setters_clamp [OF demo_explosion demo_explosion_at, of demo_engine "Finite (1 / 2)"]
    setters_clamp [OF demo_explosion demo_explosion_at, of demo_engine "Finite (- 2)"]
    setters_clamp [OF demo_explosion demo_explosion_at, of demo_engine "Finite (- 4)"]
    setters_clamp [OF demo_explosion demo_explosion_at, of demo_engine "Finite 2"]
  by (simp add: demo_explosion demo_explosion_at std_clamp_def floor_pitch_def demo_events)

subsection \<open>Unknown and null identifiers\<close>

text \<open>
  Claim C6. For an identifier that is not in the registry, \<open>UnloadSound\<close>,
  \<open>SndPlaySound\<close>, \<open>StopSound\<close>, \<open>PauseSound\<close>, \<open>ResumeSound\<close> and the four per-sound
  setters return normally: each prints one warning and does nothing else, so the
  registry and the objects are unchanged. \<open>IsSoundPlaying\<close> answers \<open>false\<close> for such
  an identifier and for the null identifier.
\<close>

theorem unknown_id_is_a_warned_no_op:
  assumes absent: "map_find (g_loadedSounds st) soundId = None"
  shows "UnloadSound ma (Some soundId) st =
           Some (report WARNING ''Attempted to unload non-existent sound ID'' [Str soundId] st)
       \<and> SndPlaySound ma (Some soundId) loop st =
           Some (report WARNING ''Attempted to play non-existent sound ID'' [Str soundId] st)
       \<and> StopSound ma (Some soundId) st =
           Some (report WARNING ''Attempted to stop non-existent sound ID'' [Str soundId] st)
       \<and> PauseSound ma (Some soundId) st =
           Some (report WARNING ''Attempted to pause non-existent sound ID'' [Str soundId] st)
       \<and> ResumeSound ma (Some soundId) st =
           Some (report WARNING ''Attempted to resume non-existent sound ID'' [Str soundId] st)
       \<and> SetSoundVolume ma (Some soundId) v st =
           Some (report WARNING ''Attempted to set volume for non-existent sound ID'' [Str soundId] st)
       \<and> SetSoundPan ma (Some soundId) v st =
           Some (report WARNING ''Attempted to set pan for non-existent sound ID'' [Str soundId] st)
       \<and> SetSoundPitch ma (Some soundId) v st =
           Some (report WARNING ''Attempted to set pitch for non-existent sound ID'' [Str soundId] st)
       \<and> SetSoundPosition ma (Some soundId) x y z st =
           Some (report WARNING ''Attempted to set position for non-existent sound ID'' [Str soundId] st)
       \<and> IsSoundPlaying ma (Some soundId) st = Some False
       \<and> IsSoundPlaying ma None st = Some False
       \<and> g_loadedSounds (report WARNING txt [Str soundId] st) = g_loadedSounds st
       \<and> heap (report WARNING txt [Str soundId] st) = heap st
       \<and> events (report WARNING txt [Str soundId] st) = events st @ [Report WARNING txt [Str soundId]]"
  using absent
  by (simp add: UnloadSound_def SndPlaySound_def StopSound_def PauseSound_def ResumeSound_def
      SetSoundVolume_def SetSoundPan_def SetSoundPitch_def SetSoundPosition_def IsSoundPlaying_def)

theorem unknown_id_is_a_warned_no_op_witness:
  "map_find (g_loadedSounds demo_state) ''laser'' = None
   \<and> SndPlaySound demo_engine (Some ''laser'') False demo_state =
       Some (report WARNING ''Attempted to play non-existent sound ID'' [Str ''laser''] demo_state)
   \<and> UnloadSound demo_engine (Some ''laser'') demo_state =
       Some (report WARNING ''Attempted to unload non-existent sound ID'' [Str ''laser''] demo_state)
   \<and> IsSoundPlaying demo_engine (Some ''laser'') demo_state = Some False"
  using unknown_id_is_a_warned_no_op [OF demo_laser_fresh, of demo_engine False]
  by (simp add: demo_laser_fresh)

text \<open>
  Against claim C7 as stated (the empty identifier is rejected like the null one): the
  functions test the pointer only (\<open>!soundId\<close>), so the empty string is a key like any
  other. On the empty registry \<open>LoadSound\<close> with the empty identifier succeeds and
  inserts an entry under it; nothing is reported as an error.
\<close>

theorem empty_id_is_accepted_counterexample:
  "fst (LoadSound demo_engine 300 (Some ''a.wav'') (Some []) empty_state) = True
   \<and> g_loadedSounds (snd (LoadSound demo_engine 300 (Some ''a.wav'') (Some []) empty_state)) = [([], 300)]
   \<and> events (snd (LoadSound demo_engine 300 (Some ''a.wav'') (Some []) empty_state)) =
       [New 300, Call_ma_sound_init_from_file ''a.wav'' 300,
        Report INFO ''Loaded sound as ID'' [Str ''a.wav'', Str []]]"
  by (simp add: LoadSound_def Let_def map_find_def nullptr_def MA_SUCCESS_def)

text \<open>
  Claim C7, amended. Every function that takes an identifier rejects the null
  identifier at once and leaves the registry and the objects untouched: \<open>LoadSound\<close>
  (which rejects a null path the same way) returns \<open>false\<close> and reports an error, the
  void functions report an error, and \<open>IsSoundPlaying\<close> answers \<open>false\<close> without
  reporting anything. The empty identifier is not rejected: \<open>LoadSound\<close> creates an
  entry under it like under any other key.
\<close>

theorem null_id_is_rejected:
  "LoadSound ma pSound filePath None st =
     (False, report ERROR ''LoadSound received null filePath or soundId.'' [] st)
   \<and> LoadSound ma pSound None soundId st =
     (False, report ERROR ''LoadSound received null filePath or soundId.'' [] st)
   \<and> UnloadSound ma None st = Some (report ERROR ''UnloadSound received null soundId.'' [] st)
   \<and> SndPlaySound ma None loop st = Some (report ERROR ''SndPlaySound received null soundId.'' [] st)
   \<and> StopSound ma None st = Some (report ERROR ''StopSound received null soundId.'' [] st)
   \<and> PauseSound ma None st = Some (report ERROR ''PauseSound received null soundId.'' [] st)
   \<and> ResumeSound ma None st = Some (report ERROR ''ResumeSound received null soundId.'' [] st)
   \<and> SetSoundVolume ma None v st = Some (report ERROR ''SetSoundVolume received null soundId.'' [] st)
   \<and> SetSoundPan ma None v st = Some (report ERROR ''SetSoundPan received null soundId.'' [] st)
   \<and> SetSoundPitch ma None v st = Some (report ERROR ''SetSoundPitch received null soundId.'' [] st)
   \<and> SetSoundPosition ma None x y z st =
       Some (report ERROR ''SetSoundPosition received null soundId.'' [] st)
   \<and> IsSoundPlaying ma None st = Some False
   \<and> g_loadedSounds (report ERROR txt [] st) = g_loadedSounds st
   \<and> heap (report ERROR txt [] st) = heap st
   \<and> events (report ERROR txt [] st) = events st @ [Report ERROR txt []]
   \<and> (map_find (g_loadedSounds st) [] = None \<and> pSound \<noteq> nullptr
        \<and> fst (ma_sound_init_from_file ma path) = MA_SUCCESS \<longrightarrow>
       fst (LoadSound ma pSound (Some path) (Some []) st)
       \<and> map_find (g_loadedSounds (snd (LoadSound ma pSound (Some path) (Some []) st))) [] = Some pSound)"
proof -
  have "LoadSound ma pSound filePath None st =
     (False, report ERROR ''LoadSound received null filePath or soundId.'' [] st)"
    by (cases filePath) (simp_all add: LoadSound_def)
  moreover have "map_find (g_loadedSounds st) [] = None \<and> pSound \<noteq> nullptr
        \<and> fst (ma_sound_init_from_file ma path) = MA_SUCCESS \<longrightarrow>
       fst (LoadSound ma pSound (Some path) (Some []) st)
       \<and> map_find (g_loadedSounds (snd (LoadSound ma pSound (Some path) (Some []) st))) [] = Some pSound"
    by (simp add: LoadSound_fresh_accepted map_find_map_assign)
  ultimately show ?thesis
    by (simp add: LoadSound_def UnloadSound_def SndPlaySound_def StopSound_def PauseSound_def
        ResumeSound_def SetSoundVolume_def SetSoundPan_def SetSoundPitch_def SetSoundPosition_def
        IsSoundPlaying_def)
qed

theorem null_id_is_rejected_witness:
  "map_find (g_loadedSounds demo_state) [] = None \<and> (300 :: ptr) \<noteq> nullptr
   \<and> fst (ma_sound_init_from_file demo_engine ''a.wav'') = MA_SUCCESS
   \<and> fst (LoadSound demo_engine 300 (Some ''a.wav'') (Some []) demo_state)
   \<and> map_find (g_loadedSounds (snd (LoadSound demo_engine 300 (Some ''a.wav'') (Some []) demo_state))) []
       = Some 300
   \<and> StopSound demo_engine None demo_state =
       Some (report ERROR ''StopSound received null soundId.'' [] demo_state)"
proof -
  have a: "map_find (g_loadedSounds demo_state) [] = None"
    by (simp add: demo_state_def map_find_def)
  have c: "fst (ma_sound_init_from_file demo_engine ''a.wav'') = MA_SUCCESS"
    by simp
  show ?thesis
    using null_id_is_rejected [of demo_engine 300 _ demo_state _ _ _ _ _ _ _ "''a.wav''"] a c ptr_300_not_null
    by simp
qed

subsection \<open>Shutdown\<close>

text \<open>
  Claim C8 says that \<open>ShutdownSoundSystem\<close> stops every sound that is playing before
  it releases it. It does not: its loop calls \<open>ma_sound_uninit\<close> and \<open>delete\<close> on each
  entry and never \<open>ma_sound_is_playing\<close> or \<open>ma_sound_stop\<close>, whereas \<open>UnloadSound\<close>
  stops a playing sound first. With \<open>explosion\<close> playing, the events of
  \<open>ShutdownSoundSystem\<close> hold no stop; those of \<open>UnloadSound\<close> on the same entry begin
  with one.
\<close>

theorem shutdown_does_not_stop_a_playing_sound:
  "sound_is_playing demo_engine 100 demo_state = Some True
   \<and> map_option events (ShutdownSoundSystem demo_state) =
       Some [Call_ma_sound_uninit 100, Delete 100, Call_ma_sound_uninit 200, Delete 200,
             Call_ma_engine_uninit, Report INFO ''Shut down successfully.'' []]
   \<and> map_option g_loadedSounds (ShutdownSoundSystem demo_state) = Some []
   \<and> map_option events (UnloadSound demo_engine (Some ''explosion'') demo_state) =
       Some [Call_ma_sound_stop 100, Call_ma_sound_uninit 100, Delete 100,
             Report INFO ''Unloaded sound with ID'' [Str ''explosion'']]"
proof -
  have g: "g_loadedSounds demo_state = [(''explosion'', 100), (''music'', 200)]"
    by (simp add: demo_state_def)
  have n: "(100 :: ptr) \<noteq> nullptr" "(200 :: ptr) \<noteq> nullptr"
    by (simp_all add: nullptr_def)
  have shutdown: "map_option events (ShutdownSoundSystem demo_state) =
       Some [Call_ma_sound_uninit 100, Delete 100, Call_ma_sound_uninit 200, Delete 200,
             Call_ma_engine_uninit, Report INFO ''Shut down successfully.'' []]
     \<and> map_option g_loadedSounds (ShutdownSoundSystem demo_state) = Some []"
    using n
    by (simp add: ShutdownSoundSystem_def g sound_uninit_def without_result_Some demo_explosion_at
        demo_music_at demo_events)
  have unload: "map_option events (UnloadSound demo_engine (Some ''explosion'') demo_state) =
       Some [Call_ma_sound_stop 100, Call_ma_sound_uninit 100, Delete 100,
             Report INFO ''Unloaded sound with ID'' [Str ''explosion'']]"
    using n
    by (simp add: UnloadSound_def demo_explosion sound_is_playing_def sound_stop_def
        with_result_Some sound_uninit_def without_result_Some demo_explosion_at demo_events)
  have "sound_is_playing demo_engine 100 demo_state = Some True"
    by (simp add: sound_is_playing_def demo_explosion_at)
  then show ?thesis
    using shutdown unload by simp
qed

text \<open>
  The rest of what the claim says holds on every valid registry: each entry's object is
  uninitialised and deleted, in key order, the registry is emptied, and the engine is
  uninitialised last.
\<close>

lemma shutdown_loop_releases:
  assumes "distinct (map snd m)" and "\<forall>p \<in> set (map snd m). sound_at st p \<noteq> None"
  shows "\<exists>st'. shutdown_loop m st = Some st'
          \<and> g_loadedSounds st' = g_loadedSounds st
          \<and> events st' = events st @ concat (map (\<lambda>(k, p). [Call_ma_sound_uninit p, Delete p]) m)
          \<and> heap st' = (\<lambda>q. if q \<in> set (map snd m) then None else heap st q)"
  using assms
proof (induction m arbitrary: st)
  case Nil
  then show ?case by simp
next
  case (Cons e m)
  obtain k p where e: "e = (k, p)" by (cases e)
  from Cons.prems e obtain s where s: "sound_at st p = Some s" by auto
  then have nn: "p \<noteq> nullptr" by (rule sound_at_not_null)
  let ?st1 = "delete_sound p (emit (Call_ma_sound_uninit p) (store p s st))"
  have step: "shutdown_loop (e # m) st = shutdown_loop m ?st1"
    using e s nn by (simp add: sound_uninit_def without_result_Some)
  have d: "distinct (map snd m)" and notin: "p \<notin> set (map snd m)"
    using Cons.prems e by simp_all
  have live: "\<forall>q \<in> set (map snd m). sound_at ?st1 q \<noteq> None"
    using Cons.prems e notin by (auto simp: sound_at_def)
  from Cons.IH [OF d live] obtain st' where st':
    "shutdown_loop m ?st1 = Some st'"
    "g_loadedSounds st' = g_loadedSounds ?st1"
    "events st' = events ?st1 @ concat (map (\<lambda>(k, p). [Call_ma_sound_uninit p, Delete p]) m)"
    "heap st' = (\<lambda>q. if q \<in> set (map snd m) then None else heap ?st1 q)"
    by blast
  have h: "heap st' = (\<lambda>q. if q \<in> set (map snd (e # m)) then None else heap st q)"
    using st'(4) e by (auto simp: fun_eq_iff)
  show ?case
    using step st'(1) st'(2) st'(3) h e by simp
qed

theorem shutdown_releases_every_sound:
  assumes "valid_registry st"
  shows "\<exists>st'. ShutdownSoundSystem st = Some st'
          \<and> g_loadedSounds st' = []
          \<and> (\<forall>p \<in> set (map snd (g_loadedSounds st)). heap st' p = None)
          \<and> events st' = events st
               @ concat (map (\<lambda>(k, p). [Call_ma_sound_uninit p, Delete p]) (g_loadedSounds st))
               @ [Call_ma_engine_uninit, Report INFO ''Shut down successfully.'' []]"
proof -
  have d: "distinct (map snd (g_loadedSounds st))"
    and l: "\<forall>p \<in> set (map snd (g_loadedSounds st)). sound_at st p \<noteq> None"
    using assms by (simp_all add: valid_registry_def)
  from shutdown_loop_releases [OF d l] obtain st1 where st1:
    "shutdown_loop (g_loadedSounds st) st = Some st1"
    "events st1 = events st
       @ concat (map (\<lambda>(k, p). [Call_ma_sound_uninit p, Delete p]) (g_loadedSounds st))"
    "heap st1 = (\<lambda>q. if q \<in> set (map snd (g_loadedSounds st)) then None else heap st q)"
    by blast
  show ?thesis
    using st1 by (simp add: ShutdownSoundSystem_def)
qed

theorem shutdown_releases_every_sound_witness:
  "valid_registry demo_state
   \<and> (\<exists>st'. ShutdownSoundSystem demo_state = Some st'
          \<and> g_loadedSounds st' = []
          \<and> heap st' 100 = None \<and> heap st' 200 = None
          \<and> events st' =
               [Call_ma_sound_uninit 100, Delete 100, Call_ma_sound_uninit 200, Delete 200,
                Call_ma_engine_uninit, Report INFO ''Shut down successfully.'' []])"
proof -
  have g: "g_loadedSounds demo_state = [(''explosion'', 100), (''music'', 200)]"
    by (simp add: demo_state_def)
  show ?thesis
    using shutdown_releases_every_sound [OF demo_state_valid] demo_state_valid
    by (simp add: g demo_events)
qed

subsection \<open>The registry stays valid\<close>

text \<open>
  The properties above are about an entry that is present and whose pointer designates
  a live object. On a valid registry every present entry is such an entry, and every
  exported function returns (it never reads through a null or dead pointer) and leaves
  the registry valid; \<open>LoadSound\<close> does so when \<open>new\<close> returns null or an address not in
  use. The empty registry is valid.
\<close>

lemma valid_registry_kept:
  assumes "valid_registry st" and "g_loadedSounds st' = g_loadedSounds st"
      and "\<forall>p. sound_at st p \<noteq> None \<longrightarrow> sound_at st' p \<noteq> None"
  shows "valid_registry st'"
  using assms by (simp add: valid_registry_def)

lemma report_valid [simp]: "valid_registry (report sev txt args st) = valid_registry st"
  by (simp add: valid_registry_def)

lemma emit_valid [simp]: "valid_registry (emit e st) = valid_registry st"
  by (simp add: valid_registry_def)

lemma valid_present_live:
  assumes "valid_registry st" and "map_find (g_loadedSounds st) k = Some p"
  shows "\<exists>s. sound_at st p = Some s"
  using assms map_find_in_set [of "g_loadedSounds st" k p] by (auto simp: valid_registry_def)

lemma with_result_step:
  assumes "valid_registry st" and "sound_at st p = Some s"
  shows "\<exists>st'. with_result e p f st = Some (fst (f s), st') \<and> valid_registry st'
           \<and> g_loadedSounds st' = g_loadedSounds st \<and> sound_at st' p = Some (snd (f s))"
proof -
  have nn: "p \<noteq> nullptr" using assms(2) by (rule sound_at_not_null)
  have "valid_registry (emit e (store p (snd (f s)) st))"
    using assms(1) by (rule valid_registry_kept) (auto simp: sound_at_def)
  then show ?thesis using assms(2) nn by (simp add: with_result_Some)
qed

lemma without_result_step:
  assumes "valid_registry st" and "sound_at st p = Some s"
  shows "\<exists>st'. without_result e p f st = Some st' \<and> valid_registry st'
           \<and> g_loadedSounds st' = g_loadedSounds st \<and> sound_at st' p = Some (f s)"
proof -
  have nn: "p \<noteq> nullptr" using assms(2) by (rule sound_at_not_null)
  have "valid_registry (emit e (store p (f s) st))"
    using assms(1) by (rule valid_registry_kept) (auto simp: sound_at_def)
  then show ?thesis using assms(2) nn by (simp add: without_result_Some)
qed

lemma LoadSound_valid:
  assumes v: "valid_registry st" and u: "pSound = nullptr \<or> heap st pSound = None"
  shows "valid_registry (snd (LoadSound ma pSound filePath soundId st))"
proof (cases filePath)
  case None
  then show ?thesis using v by (simp add: LoadSound_def)
next
  case (Some path)
  note fp = this
  show ?thesis
  proof (cases soundId)
    case None
    then show ?thesis using v fp by (simp add: LoadSound_def)
  next
    case (Some k)
    show ?thesis
    proof (cases "map_find (g_loadedSounds st) k = None")
      case False
      then show ?thesis using v fp Some by (simp add: LoadSound_def)
    next
      case True
      note fresh = this
      show ?thesis
      proof (cases "pSound = nullptr")
        case True
        then show ?thesis using v fp Some fresh by (simp add: LoadSound_def)
      next
        case False
        then have un: "heap st pSound = None" using u by simp
        have notin: "pSound \<notin> set (map snd (g_loadedSounds st))"
          using v un by (auto simp: valid_registry_def sound_at_def split: if_splits)
        show ?thesis
        proof (cases "fst (ma_sound_init_from_file ma path) = MA_SUCCESS")
          case True
          let ?m = "map_assign k pSound (g_loadedSounds st)"
          let ?st = "(emit (Call_ma_sound_init_from_file path pSound)
                      (store pSound (snd (ma_sound_init_from_file ma path)) (emit (New pSound) st)))
                     \<lparr>g_loadedSounds := ?m\<rparr>"
          have s: "sorted_wrt (<) (map fst ?m)"
            using v by (simp add: valid_registry_def sorted_map_assign)
          have d: "distinct (map snd ?m)"
            using v notin fresh by (simp add: valid_registry_def distinct_map_assign)
          have l: "sound_at ?st p \<noteq> None" if "p \<in> snd ` set ?m" for p
          proof (cases "p = pSound")
            case True
            then show ?thesis using False by simp
          next
            case other: False
            then have "p \<in> snd ` set (g_loadedSounds st)"
              using that snd_set_map_assign [of k pSound "g_loadedSounds st"] by auto
            then have "sound_at st p \<noteq> None"
              using v by (auto simp: valid_registry_def)
            then show ?thesis using other by (auto simp: sound_at_def)
          qed
          have "valid_registry ?st"
            using s d l by (simp add: valid_registry_def)
          then show ?thesis
            using fp Some LoadSound_fresh_accepted [OF fresh False True] by simp
        next
          case rej: False
          have "valid_registry (delete_sound pSound
                     (report ERROR ''Failed to load sound. Result:''
                        [Str path, Res (fst (ma_sound_init_from_file ma path))]
                        (emit (Call_ma_sound_init_from_file path pSound)
                          (store pSound (snd (ma_sound_init_from_file ma path))
                            (emit (New pSound) st)))))"
            using v notin by (auto simp: valid_registry_def)
          then show ?thesis
            using fp Some LoadSound_fresh_rejected [OF fresh False rej] by simp
        qed
      qed
    qed
  qed
qed

lemma UnloadSound_valid:
  assumes v: "valid_registry st"
  shows "\<exists>st'. UnloadSound ma soundId st = Some st' \<and> valid_registry st'"
proof (cases soundId)
  case None
  then show ?thesis using v by (simp add: UnloadSound_def)
next
  case id: (Some k)
  show ?thesis
  proof (cases "map_find (g_loadedSounds st) k")
    case None
    then show ?thesis using v id by (simp add: UnloadSound_def)
  next
    case (Some p)
    from valid_present_live [OF v Some] obtain s where s: "sound_at st p = Some s" ..
    have "\<exists>st1 s1. (if ma_sound_is_playing ma s then map_option snd (sound_stop ma p st) else Some st)
              = Some st1
            \<and> valid_registry st1 \<and> g_loadedSounds st1 = g_loadedSounds st \<and> sound_at st1 p = Some s1"
    proof (cases "ma_sound_is_playing ma s")
      case False
      then show ?thesis using v s by simp
    next
      case True
      from with_result_step [OF v s, of "Call_ma_sound_stop p" "ma_sound_stop ma"]
      show ?thesis using True by (auto simp: sound_stop_def)
    qed
    then obtain st1 s1 where st1:
      "(if ma_sound_is_playing ma s then map_option snd (sound_stop ma p st) else Some st) = Some st1"
      "valid_registry st1" "g_loadedSounds st1 = g_loadedSounds st" "sound_at st1 p = Some s1"
      by blast
    from without_result_step [OF st1(2) st1(4), of "Call_ma_sound_uninit p" "\<lambda>s. s"] obtain st2 where st2:
      "without_result (Call_ma_sound_uninit p) p (\<lambda>s. s) st1 = Some st2"
      "valid_registry st2" "g_loadedSounds st2 = g_loadedSounds st1" by blast
    let ?m = "map_erase k (g_loadedSounds st2)"
    let ?st3 = "(delete_sound p st2)\<lparr>g_loadedSounds := ?m\<rparr>"
    have f: "map_find (g_loadedSounds st2) k = Some p"
      using Some st1(3) st2(3) by simp
    have gone: "p \<notin> snd ` set ?m"
      using f st2(2) by (intro erased_pointer_gone) (simp_all add: valid_registry_def)
    have l: "sound_at ?st3 q \<noteq> None" if "q \<in> snd ` set ?m" for q
    proof -
      have "q \<in> snd ` set (g_loadedSounds st2)"
        using that set_map_erase [of k "g_loadedSounds st2"] by auto
      then have "sound_at st2 q \<noteq> None" using st2(2) by (auto simp: valid_registry_def)
      moreover have "q \<noteq> p" using that gone by auto
      ultimately show ?thesis by simp
    qed
    have "valid_registry ?st3"
      using st2(2) l by (simp add: valid_registry_def sorted_map_erase distinct_map_erase)
    then show ?thesis
      using id Some s st1(1) st2(1)
      by (simp add: UnloadSound_def sound_is_playing_def sound_uninit_def)
  qed
qed

lemma SndPlaySound_valid:
  assumes v: "valid_registry st"
  shows "\<exists>st'. SndPlaySound ma soundId loop st = Some st' \<and> valid_registry st'"
proof (cases soundId)
  case None
  then show ?thesis using v by (simp add: SndPlaySound_def)
next
  case id: (Some k)
  show ?thesis
  proof (cases "map_find (g_loadedSounds st) k")
    case None
    then show ?thesis using v id by (simp add: SndPlaySound_def)
  next
    case (Some p)
    from valid_present_live [OF v Some] obtain s where s: "sound_at st p = Some s" ..
    have "\<exists>st1 s1. (if ma_sound_is_playing ma s
                     then sound_stop ma p st \<bind>
                          (\<lambda>(_, st'). map_option snd (sound_seek_to_pcm_frame ma p 0 st'))
                     else Some st) = Some st1
             \<and> valid_registry st1 \<and> sound_at st1 p = Some s1"
    proof (cases "ma_sound_is_playing ma s")
      case False
      then show ?thesis using v s by simp
    next
      case True
      from with_result_step [OF v s, of "Call_ma_sound_stop p" "ma_sound_stop ma"] obtain sta where sta:
        "with_result (Call_ma_sound_stop p) p (ma_sound_stop ma) st = Some (fst (ma_sound_stop ma s), sta)"
        "valid_registry sta" "sound_at sta p = Some (snd (ma_sound_stop ma s))" by blast
      from with_result_step [OF sta(2) sta(3), of "Call_ma_sound_seek_to_pcm_frame p 0"
          "\<lambda>s. ma_sound_seek_to_pcm_frame ma s 0"] obtain stb where stb:
        "with_result (Call_ma_sound_seek_to_pcm_frame p 0) p (\<lambda>s. ma_sound_seek_to_pcm_frame ma s 0) sta
           = Some (fst (ma_sound_seek_to_pcm_frame ma (snd (ma_sound_stop ma s)) 0), stb)"
        "valid_registry stb"
        "sound_at stb p = Some (snd (ma_sound_seek_to_pcm_frame ma (snd (ma_sound_stop ma s)) 0))"
        by blast
      show ?thesis
        using True sta stb by (simp add: sound_stop_def sound_seek_to_pcm_frame_def)
    qed
    then obtain st1 s1 where st1:
      "(if ma_sound_is_playing ma s
        then sound_stop ma p st \<bind> (\<lambda>(_, st'). map_option snd (sound_seek_to_pcm_frame ma p 0 st'))
        else Some st) = Some st1"
      "valid_registry st1" "sound_at st1 p = Some s1" by blast
    from without_result_step [OF st1(2) st1(3), of "Call_ma_sound_set_looping p loop"
        "\<lambda>s. ma_sound_set_looping ma s loop"] obtain st2 where st2:
      "without_result (Call_ma_sound_set_looping p loop) p (\<lambda>s. ma_sound_set_looping ma s loop) st1
         = Some st2"
      "valid_registry st2" "sound_at st2 p = Some (ma_sound_set_looping ma s1 loop)" by blast
    from with_result_step [OF st2(2) st2(3), of "Call_ma_sound_start p" "ma_sound_start ma"]
    obtain st3 where st3:
      "with_result (Call_ma_sound_start p) p (ma_sound_start ma) st2
         = Some (fst (ma_sound_start ma (ma_sound_set_looping ma s1 loop)), st3)"
      "valid_registry st3" by blast
    show ?thesis
      using id Some s st1 st2 st3
      by (simp add: SndPlaySound_def sound_is_playing_def sound_set_looping_def sound_start_def)
  qed
qed

lemma StopSound_valid:
  assumes v: "valid_registry st"
  shows "\<exists>st'. StopSound ma soundId st = Some st' \<and> valid_registry st'"
proof (cases soundId)
  case None
  then show ?thesis using v by (simp add: StopSound_def)
next
  case id: (Some k)
  show ?thesis
  proof (cases "map_find (g_loadedSounds st) k")
    case None
    then show ?thesis using v id by (simp add: StopSound_def)
  next
    case (Some p)
    from valid_present_live [OF v Some] obtain s where s: "sound_at st p = Some s" ..
    show ?thesis
    proof (cases "ma_sound_is_playing ma s")
      case False
      then show ?thesis
        using StopSound_not_playing [OF Some s] v id by simp
    next
      case True
      from with_result_step [OF v s, of "Call_ma_sound_stop p" "ma_sound_stop ma"] obtain st1 where st1:
        "with_result (Call_ma_sound_stop p) p (ma_sound_stop ma) st = Some (fst (ma_sound_stop ma s), st1)"
        "valid_registry st1" "sound_at st1 p = Some (snd (ma_sound_stop ma s))" by blast
      from with_result_step [OF st1(2) st1(3), of "Call_ma_sound_seek_to_pcm_frame p 0"
          "\<lambda>s. ma_sound_seek_to_pcm_frame ma s 0"] obtain st2 r where st2:
        "with_result (Call_ma_sound_seek_to_pcm_frame p 0) p (\<lambda>s. ma_sound_seek_to_pcm_frame ma s 0) st1
           = Some (r, st2)"
        "valid_registry st2" by blast
      show ?thesis
        using id Some s True st1 st2
        by (simp add: StopSound_def sound_is_playing_def sound_stop_def sound_seek_to_pcm_frame_def)
    qed
  qed
qed

lemma PauseSound_valid:
  assumes v: "valid_registry st"
  shows "\<exists>st'. PauseSound ma soundId st = Some st' \<and> valid_registry st'"
proof (cases soundId)
  case None
  then show ?thesis using v by (simp add: PauseSound_def)
next
  case id: (Some k)
  show ?thesis
  proof (cases "map_find (g_loadedSounds st) k")
    case None
    then show ?thesis using v id by (simp add: PauseSound_def)
  next
    case (Some p)
    from valid_present_live [OF v Some] obtain s where s: "sound_at st p = Some s" ..
    from with_result_step [OF v s, of "Call_ma_sound_stop p" "ma_sound_stop ma"] obtain st1 where
      "with_result (Call_ma_sound_stop p) p (ma_sound_stop ma) st = Some (fst ((ma_sound_stop ma) s), st1)"
      "valid_registry st1" by blast
    then show ?thesis using id Some by (simp add: PauseSound_def sound_stop_def)
  qed
qed

lemma ResumeSound_valid:
  assumes v: "valid_registry st"
  shows "\<exists>st'. ResumeSound ma soundId st = Some st' \<and> valid_registry st'"
proof (cases soundId)
  case None
  then show ?thesis using v by (simp add: ResumeSound_def)
next
  case id: (Some k)
  show ?thesis
  proof (cases "map_find (g_loadedSounds st) k")
    case None
    then show ?thesis using v id by (simp add: ResumeSound_def)
  next
    case (Some p)
    from valid_present_live [OF v Some] obtain s where s: "sound_at st p = Some s" ..
    from with_result_step [OF v s, of "Call_ma_sound_start p" "ma_sound_start ma"] obtain st1 where
      "with_result (Call_ma_sound_start p) p (ma_sound_start ma) st = Some (fst ((ma_sound_start ma) s), st1)"
      "valid_registry st1" by blast
    then show ?thesis using id Some by (simp add: ResumeSound_def sound_start_def)
  qed
qed

lemma SetSoundVolume_valid:
  assumes v: "valid_registry st"
  shows "\<exists>st'. SetSoundVolume ma soundId x st = Some st' \<and> valid_registry st'"
proof (cases soundId)
  case None
  then show ?thesis using v by (simp add: SetSoundVolume_def)
next
  case id: (Some k)
  show ?thesis
  proof (cases "map_find (g_loadedSounds st) k")
    case None
    then show ?thesis using v id by (simp add: SetSoundVolume_def)
  next
    case (Some p)
    from valid_present_live [OF v Some] obtain s where s: "sound_at st p = Some s" ..
    from without_result_step [OF v s, of "Call_ma_sound_set_volume p (std_clamp x (Finite 0) (Finite 1))" "\<lambda>s. ma_sound_set_volume ma s (std_clamp x (Finite 0) (Finite 1))"] obtain st1 where
      "without_result (Call_ma_sound_set_volume p (std_clamp x (Finite 0) (Finite 1))) p (\<lambda>s. ma_sound_set_volume ma s (std_clamp x (Finite 0) (Finite 1))) st = Some (st1)"
      "valid_registry st1" by blast
    then show ?thesis using id Some by (simp add: SetSoundVolume_def sound_set_volume_def)
  qed
qed

lemma SetSoundPan_valid:
  assumes v: "valid_registry st"
  shows "\<exists>st'. SetSoundPan ma soundId x st = Some st' \<and> valid_registry st'"
proof (cases soundId)
  case None
  then show ?thesis using v by (simp add: SetSoundPan_def)
next
  case id: (Some k)
  show ?thesis
  proof (cases "map_find (g_loadedSounds st) k")
    case None
    then show ?thesis using v id by (simp add: SetSoundPan_def)
  next
    case (Some p)
    from valid_present_live [OF v Some] obtain s where s: "sound_at st p = Some s" ..
    from without_result_step [OF v s, of "Call_ma_sound_set_pan p (std_clamp x (Finite (- 1)) (Finite 1))" "\<lambda>s. ma_sound_set_pan ma s (std_clamp x (Finite (- 1)) (Finite 1))"] obtain st1 where
      "without_result (Call_ma_sound_set_pan p (std_clamp x (Finite (- 1)) (Finite 1))) p (\<lambda>s. ma_sound_set_pan ma s (std_clamp x (Finite (- 1)) (Finite 1))) st = Some (st1)"
      "valid_registry st1" by blast
    then show ?thesis using id Some by (simp add: SetSoundPan_def sound_set_pan_def)
  qed
qed

lemma SetSoundPitch_valid:
  assumes v: "valid_registry st"
  shows "\<exists>st'. SetSoundPitch ma soundId x st = Some st' \<and> valid_registry st'"
proof (cases soundId)
  case None
  then show ?thesis using v by (simp add: SetSoundPitch_def)
next
  case id: (Some k)
  show ?thesis
  proof (cases "map_find (g_loadedSounds st) k")
    case None
    then show ?thesis using v id by (simp add: SetSoundPitch_def)
  next
    case (Some p)
    from valid_present_live [OF v Some] obtain s where s: "sound_at st p = Some s" ..
    from without_result_step [OF v s, of "Call_ma_sound_set_pitch p (floor_pitch x)" "\<lambda>s. ma_sound_set_pitch ma s (floor_pitch x)"] obtain st1 where
      "without_result (Call_ma_sound_set_pitch p (floor_pitch x)) p (\<lambda>s. ma_sound_set_pitch ma s (floor_pitch x)) st = Some (st1)"
      "valid_registry st1" by blast
    then show ?thesis using id Some by (simp add: SetSoundPitch_def sound_set_pitch_def)
  qed
qed

lemma SetSoundPosition_valid:
  assumes v: "valid_registry st"
  shows "\<exists>st'. SetSoundPosition ma soundId x y z st = Some st' \<and> valid_registry st'"
proof (cases soundId)
  case None
  then show ?thesis using v by (simp add: SetSoundPosition_def)
next
  case id: (Some k)
  show ?thesis
  proof (cases "map_find (g_loadedSounds st) k")
    case None
    then show ?thesis using v id by (simp add: SetSoundPosition_def)
  next
    case (Some p)
    from valid_present_live [OF v Some] obtain s where s: "sound_at st p = Some s" ..
    from without_result_step [OF v s, of "Call_ma_sound_set_position p x y z" "\<lambda>s. ma_sound_set_position ma s x y z"] obtain st1 where
      "without_result (Call_ma_sound_set_position p x y z) p (\<lambda>s. ma_sound_set_position ma s x y z) st = Some (st1)"
      "valid_registry st1" by blast
    then show ?thesis using id Some by (simp add: SetSoundPosition_def sound_set_position_def)
  qed
qed

lemma IsSoundPlaying_defined:
  assumes v: "valid_registry st"
  shows "IsSoundPlaying ma soundId st \<noteq> None"
proof (cases soundId)
  case None
  then show ?thesis by (simp add: IsSoundPlaying_def)
next
  case id: (Some k)
  show ?thesis
  proof (cases "map_find (g_loadedSounds st) k")
    case None
    then show ?thesis using id by (simp add: IsSoundPlaying_def)
  next
    case (Some p)
    from valid_present_live [OF v Some] obtain s where s: "sound_at st p = Some s" ..
    then show ?thesis using id Some by (simp add: IsSoundPlaying_def sound_is_playing_def)
  qed
qed

lemma ShutdownSoundSystem_valid:
  assumes "valid_registry st"
  shows "\<exists>st'. ShutdownSoundSystem st = Some st' \<and> valid_registry st'"
proof -
  have d: "distinct (map snd (g_loadedSounds st))"
    and l: "\<forall>p \<in> set (map snd (g_loadedSounds st)). sound_at st p \<noteq> None"
    using assms by (simp_all add: valid_registry_def)
  from shutdown_loop_releases [OF d l] obtain st1 where "shutdown_loop (g_loadedSounds st) st = Some st1"
    by blast
  then show ?thesis
    by (simp add: ShutdownSoundSystem_def valid_registry_def)
qed

lemma empty_state_valid: "valid_registry empty_state"
  by (simp add: valid_registry_def)

theorem exported_functions_keep_registry_valid:
  assumes v: "valid_registry st"
  shows "(pSound = nullptr \<or> heap st pSound = None \<longrightarrow>
            valid_registry (snd (LoadSound ma pSound filePath soundId st)))
       \<and> (\<exists>st'. UnloadSound ma soundId st = Some st' \<and> valid_registry st')
       \<and> (\<exists>st'. SndPlaySound ma soundId loop st = Some st' \<and> valid_registry st')
       \<and> (\<exists>st'. StopSound ma soundId st = Some st' \<and> valid_registry st')
       \<and> (\<exists>st'. PauseSound ma soundId st = Some st' \<and> valid_registry st')
       \<and> (\<exists>st'. ResumeSound ma soundId st = Some st' \<and> valid_registry st')
       \<and> (\<exists>st'. SetSoundVolume ma soundId x st = Some st' \<and> valid_registry st')
       \<and> (\<exists>st'. SetSoundPan ma soundId x st = Some st' \<and> valid_registry st')
       \<and> (\<exists>st'. SetSoundPitch ma soundId x st = Some st' \<and> valid_registry st')
       \<and> (\<exists>st'. SetSoundPosition ma soundId x y z st = Some st' \<and> valid_registry st')
       \<and> IsSoundPlaying ma soundId st \<noteq> None
       \<and> (\<exists>st'. ShutdownSoundSystem st = Some st' \<and> valid_registry st')"
  by (intro conjI impI LoadSound_valid [OF v] UnloadSound_valid [OF v] SndPlaySound_valid [OF v]
      StopSound_valid [OF v] PauseSound_valid [OF v] ResumeSound_valid [OF v]
      SetSoundVolume_valid [OF v] SetSoundPan_valid [OF v] SetSoundPitch_valid [OF v]
      SetSoundPosition_valid [OF v] IsSoundPlaying_defined [OF v] ShutdownSoundSystem_valid [OF v])

end
